theory Spec2Isabelle
  imports Main
begin

section \<open>JavaScript values\<close>

text \<open>
  The middleware handles values it does not construct itself: header values taken from
  the request and the body parsed from the remote service's answer. They are modelled
  by one datatype of JavaScript values. \<open>JBuiltin k\<close> stands for the function (or,
  for \<open>__proto__\<close>, the object) that every plain object inherits from
  \<open>Object.prototype\<close> under the property name \<open>k\<close>. Numbers are the integers
  (a number with a fractional part is not modelled); a parsed object is the list of its
  own properties, the first binding of a name being its value.
\<close>

datatype jsval =
    JUndefined
  | JNull
  | JBool bool
  | JNum int
  | JStr string
  | JArr "jsval list"
  | JObj "(string \<times> jsval) list"
  | JBuiltin string

datatype transport_failure = NetworkError | Timeout

datatype exn =
    TypeError
  | FetchFailed transport_failure
  | SyntaxError
  | Error string

datatype 'a completion = Returns 'a | Throws exn

text \<open>Truthiness, as used by \<open>!x\<close> and \<open>x || y\<close>.\<close>

fun truthy :: "jsval \<Rightarrow> bool" where
  "truthy JUndefined = False"
| "truthy JNull = False"
| "truthy (JBool b) = b"
| "truthy (JNum n) = (n \<noteq> 0)"
| "truthy (JStr s) = (s \<noteq> [])"
| "truthy (JArr xs) = True"
| "truthy (JObj fs) = True"
| "truthy (JBuiltin k) = True"

definition js_or :: "jsval \<Rightarrow> jsval \<Rightarrow> jsval" where
  "js_or a b = (if truthy a then a else b)"

text \<open>The property names every plain object inherits from \<open>Object.prototype\<close>.\<close>

definition object_prototype_keys :: "string list" where
  "object_prototype_keys =
     [''constructor'', ''__defineGetter__'', ''__defineSetter__'', ''hasOwnProperty'',
      ''__lookupGetter__'', ''__lookupSetter__'', ''isPrototypeOf'',
      ''propertyIsEnumerable'', ''toString'', ''valueOf'', ''__proto__'',
      ''toLocaleString'']"

text \<open>
  \<open>obj[k]\<close> on a plain object (an object literal, a parsed JSON object, the header
  object of a request): the own property if there is one, else what the prototype
  chain gives, else \<open>undefined\<close>.
\<close>

definition js_lookup :: "(string \<times> jsval) list \<Rightarrow> string \<Rightarrow> jsval" where
  "js_lookup fs k =
     (case map_of fs k of
        Some v \<Rightarrow> v
      | None \<Rightarrow> if k \<in> set object_prototype_keys then JBuiltin k else JUndefined)"

text \<open>
  \<open>v.k\<close> for a value of any kind: a TypeError on \<open>undefined\<close> and \<open>null\<close>. On
  primitives and arrays only the names of \<open>Object.prototype\<close> are modelled; the
  program reads none of their type-specific properties (\<open>length\<close>, indices, methods)
  through this function.
\<close>

fun get_prop :: "jsval \<Rightarrow> string \<Rightarrow> exn + jsval" where
  "get_prop JUndefined k = Inl TypeError"
| "get_prop JNull k = Inl TypeError"
| "get_prop (JObj fs) k = Inr (js_lookup fs k)"
| "get_prop v k = Inr (js_lookup [] k)"

text \<open>Decimal rendering of an integer, as \<open>String(n)\<close> gives it.\<close>

function show_nat :: "nat \<Rightarrow> string" where
  "show_nat n =
     (if n < 10 then [char_of (48 + n)]
      else show_nat (n div 10) @ [char_of (48 + n mod 10)])"
  by pat_completeness auto
termination
  by (relation "measure id") auto

definition show_int :: "int \<Rightarrow> string" where
  "show_int i = (if i < 0 then CHR ''-'' # show_nat (nat (- i)) else show_nat (nat i))"

fun join_comma :: "string list \<Rightarrow> string" where
  "join_comma [] = []"
| "join_comma [s] = s"
| "join_comma (s # t # ss) = s @ '','' @ join_comma (t # ss)"

text \<open>
  \<open>String(v)\<close>, the conversion applied to a value that is used as a property name
  (\<open>statusMap[error]\<close>) or substituted into a template literal. An array joins its
  elements with commas, \<open>null\<close> and \<open>undefined\<close> elements giving the empty string. A
  parsed object converts to \<open>[object Object]\<close> through the inherited \<open>toString\<close>;
  when it has an own property named \<open>toString\<close> (data, so not callable), the
  conversion falls back on \<open>valueOf\<close>, finds no primitive and raises a TypeError.
  Integers are printed in plain decimal notation, as JavaScript does below \<open>10^21\<close>.
\<close>

fun sequence :: "(exn + string) list \<Rightarrow> exn + string list" where
  "sequence [] = Inr []"
| "sequence (Inl x # rs) = Inl x"
| "sequence (Inr s # rs) = (case sequence rs of Inl x \<Rightarrow> Inl x | Inr ss \<Rightarrow> Inr (s # ss))"

fun to_string :: "jsval \<Rightarrow> exn + string" where
  "to_string JUndefined = Inr ''undefined''"
| "to_string JNull = Inr ''null''"
| "to_string (JBool b) = Inr (if b then ''true'' else ''false'')"
| "to_string (JNum n) = Inr (show_int n)"
| "to_string (JStr s) = Inr s"
| "to_string (JArr xs) =
     (case sequence (map (\<lambda>x. if x = JUndefined \<or> x = JNull then Inr [] else to_string x) xs) of
        Inl x \<Rightarrow> Inl x
      | Inr ss \<Rightarrow> Inr (join_comma ss))"
| "to_string (JObj fs) =
     (if ''toString'' \<in> fst ` set fs then Inl TypeError else Inr ''[object Object]'')"
| "to_string (JBuiltin k) = Inr (''function '' @ k @ ''() { [native code] }'')"

section \<open>The error tables of \<open>middleware/moltbook-auth.js\<close>\<close>

definition statusMap :: "(string \<times> jsval) list" where
  "statusMap =
     [(''identity_token_expired'', JNum 401),
      (''invalid_token'', JNum 401),
      (''agent_not_found'', JNum 404),
      (''agent_deactivated'', JNum 403),
      (''audience_required'', JNum 401),
      (''audience_mismatch'', JNum 401),
      (''rate_limit_exceeded'', JNum 429),
      (''missing_app_key'', JNum 401),
      (''invalid_app_key'', JNum 401)]"

definition getStatusCodeForError :: "jsval \<Rightarrow> exn + jsval" where
  "getStatusCodeForError error =
     (case to_string error of
        Inl x \<Rightarrow> Inl x
      | Inr k \<Rightarrow> Inr (js_or (js_lookup statusMap k) (JNum 401)))"

definition hints :: "(string \<times> jsval) list" where
  "hints =
     [(''identity_token_expired'',
         JStr ''Your identity token has expired. Request a new token from Moltbook and try again.''),
      (''invalid_token'', JStr ''The identity token is malformed or has been tampered with.''),
      (''agent_not_found'', JStr ''The agent associated with this token no longer exists.''),
      (''agent_deactivated'', JStr ''This agent has been deactivated or banned.''),
      (''audience_required'', JStr ''This token requires audience verification.''),
      (''audience_mismatch'', JStr ''This token was issued for a different service.''),
      (''rate_limit_exceeded'',
         JStr ''Too many verification requests. Please wait and try again.''),
      (''missing_app_key'', JStr ''The server is not configured with a Moltbook app key.''),
      (''invalid_app_key'',
         JStr ''The server's Moltbook app key is invalid or has been revoked.'')]"

definition getErrorHint :: "jsval \<Rightarrow> exn + jsval" where
  "getErrorHint error =
     (case to_string error of
        Inl x \<Rightarrow> Inl x
      | Inr k \<Rightarrow> Inr (js_or (js_lookup hints k) (JStr ''Identity verification failed.'')))"

section \<open>Requests, responses and the remote service\<close>

text \<open>
  The request as the middleware uses it: its header object and the property
  \<open>moltbookAgent\<close> (\<open>JUndefined\<close> while nothing has been attached).
\<close>

record request =
  headers :: "(string \<times> jsval) list"
  moltbookAgent :: jsval

text \<open>One \<open>res.status(code).json(body)\<close>: the status and the object handed over.\<close>

record response =
  status :: jsval
  json_body :: "(string \<times> jsval) list"

text \<open>
  One \<open>fetch\<close>: the URL, the method, the request headers and the members of the
  JSON text that \<open>JSON.stringify\<close> produced as the body.
\<close>

record outbound =
  url :: string
  http_method :: string
  out_headers :: "(string \<times> jsval) list"
  out_body :: "(string \<times> jsval) list"

text \<open>
  What the outbound call does: \<open>fetch\<close> rejects (the network failed, or the transport
  gave up waiting), or it resolves and \<open>response.json()\<close> either rejects (the body is
  not JSON) or yields the parsed value. The code sets no time limit of its own, so a
  timeout reaches it only as a rejection raised by the transport.
\<close>

datatype remote_body = NotJson | Json jsval

datatype fetch_outcome = Rejects transport_failure | Resolves remote_body

type_synonym remote = "outbound \<Rightarrow> fetch_outcome"

text \<open>
  Everything a run of the middleware does that its caller can observe: the request
  (with whatever was attached to it), the responses sent, how often \<open>next\<close> was called,
  and the outbound calls issued. \<open>res\<close> and \<open>next\<close> belong to the host; they record
  what they are given and return normally, as the mock objects of the repository's
  test utilities do.
\<close>

record effects =
  req :: request
  sent :: "response list"
  next_calls :: nat
  fetched :: "outbound list"

definition start :: "request \<Rightarrow> effects" where
  "start r = \<lparr>req = r, sent = [], next_calls = 0, fetched = []\<rparr>"

definition send_json :: "jsval \<Rightarrow> (string \<times> jsval) list \<Rightarrow> effects \<Rightarrow> effects" where
  "send_json code body st = st\<lparr>sent := sent st @ [\<lparr>status = code, json_body = body\<rparr>]\<rparr>"

definition call_next :: "effects \<Rightarrow> effects" where
  "call_next st = st\<lparr>next_calls := Suc (next_calls st)\<rparr>"

definition attach_agent :: "jsval \<Rightarrow> effects \<Rightarrow> effects" where
  "attach_agent a st = st\<lparr>req := (req st)\<lparr>moltbookAgent := a\<rparr>\<rparr>"

definition do_fetch :: "outbound \<Rightarrow> effects \<Rightarrow> effects" where
  "do_fetch c st = st\<lparr>fetched := fetched st @ [c]\<rparr>"

text \<open>\<open>JSON.stringify\<close> of an object literal leaves out the members that are
  \<open>undefined\<close> or functions.\<close>

fun is_builtin :: "jsval \<Rightarrow> bool" where
  "is_builtin (JBuiltin k) = True"
| "is_builtin v = False"

definition json_stringify :: "(string \<times> jsval) list \<Rightarrow> (string \<times> jsval) list" where
  "json_stringify fs = filter (\<lambda>(k, v). v \<noteq> JUndefined \<and> \<not> is_builtin v) fs"

section \<open>\<open>middleware/moltbook-auth.js\<close>\<close>

text \<open>The process environment read at module load: a variable is unset or a string.\<close>

record env =
  MOLTBOOK_APP_KEY :: "string option"
  MOLTBOOK_AUDIENCE :: "string option"

definition env_value :: "string option \<Rightarrow> jsval" where
  "env_value x = (case x of None \<Rightarrow> JUndefined | Some s \<Rightarrow> JStr s)"

definition MOLTBOOK_VERIFY_ENDPOINT :: string where
  "MOLTBOOK_VERIFY_ENDPOINT = ''https://moltbook.com/api/v1/agents/verify-identity''"

definition MY_DOMAIN :: "env \<Rightarrow> jsval" where
  "MY_DOMAIN e = js_or (env_value (MOLTBOOK_AUDIENCE e)) (JStr ''default'')"

text \<open>The call both entry points of the module make.\<close>

definition verify_call :: "env \<Rightarrow> jsval \<Rightarrow> outbound" where
  "verify_call e identityToken =
     \<lparr>url = MOLTBOOK_VERIFY_ENDPOINT,
      http_method = ''POST'',
      out_headers = [(''Content-Type'', JStr ''application/json''),
                     (''X-Moltbook-App-Key'', env_value (MOLTBOOK_APP_KEY e))],
      out_body = json_stringify [(''token'', identityToken), (''audience'', MY_DOMAIN e)]\<rparr>"

text \<open>
  The log line of a successful verification,
  \<open>`[Moltbook] Verified agent: ${data.agent.name} (karma: ${data.agent.karma})`\<close>:
  reading a property of \<open>null\<close> or \<open>undefined\<close> raises, and so does a substitution
  that cannot be converted to a string.
\<close>

definition verified_log_line :: "jsval \<Rightarrow> exn + string" where
  "verified_log_line agent =
     (case get_prop agent ''name'' of
        Inl x \<Rightarrow> Inl x
      | Inr name \<Rightarrow>
          (case to_string name of
             Inl x \<Rightarrow> Inl x
           | Inr n \<Rightarrow>
               (case get_prop agent ''karma'' of
                  Inl x \<Rightarrow> Inl x
                | Inr karma \<Rightarrow>
                    (case to_string karma of
                       Inl x \<Rightarrow> Inl x
                     | Inr k \<Rightarrow>
                         Inr (''[Moltbook] Verified agent: '' @ n @ '' (karma: '' @ k @ '')'')))))"

text \<open>
  The \<open>try\<close> block of \<open>verifyMoltbookIdentity\<close>. The result says whether the block
  threw, and carries the effects up to that point. What is written to the console is
  not recorded.
\<close>

definition verify_try :: "env \<Rightarrow> remote \<Rightarrow> jsval \<Rightarrow> effects \<Rightarrow> exn option \<times> effects" where
  "verify_try e remote identityToken st0 =
     (let c = verify_call e identityToken; st1 = do_fetch c st0 in
      case remote c of
        Rejects f \<Rightarrow> (Some (FetchFailed f), st1)
      | Resolves NotJson \<Rightarrow> (Some SyntaxError, st1)
      | Resolves (Json data) \<Rightarrow>
          (case get_prop data ''valid'' of
             Inl x \<Rightarrow> (Some x, st1)
           | Inr valid \<Rightarrow>
               if \<not> truthy valid then
                 (case get_prop data ''error'' of
                    Inl x \<Rightarrow> (Some x, st1)
                  | Inr err \<Rightarrow>
                      (case getStatusCodeForError err of
                         Inl x \<Rightarrow> (Some x, st1)
                       | Inr statusCode \<Rightarrow>
                           (case getErrorHint err of
                              Inl x \<Rightarrow> (Some x, st1)
                            | Inr hint \<Rightarrow>
                                (None, send_json statusCode
                                         [(''error'', err), (''hint'', hint)] st1))))
               else
                 (case get_prop data ''agent'' of
                    Inl x \<Rightarrow> (Some x, st1)
                  | Inr agent \<Rightarrow>
                      (let st2 = attach_agent agent st1 in
                       case verified_log_line agent of
                         Inl x \<Rightarrow> (Some x, st2)
                       | Inr line \<Rightarrow> (None, call_next st2)))))"

definition verifyMoltbookIdentity :: "env \<Rightarrow> remote \<Rightarrow> request \<Rightarrow> effects completion" where
  "verifyMoltbookIdentity e remote r =
     (let identityToken = js_lookup (headers r) ''x-moltbook-identity'' in
      if \<not> truthy identityToken then
        Returns (send_json (JNum 401)
                   [(''error'', JStr ''Missing identity token''),
                    (''hint'', JStr ''Include X-Moltbook-Identity header with your identity token'')]
                   (start r))
      else if \<not> truthy (env_value (MOLTBOOK_APP_KEY e)) then
        Returns (send_json (JNum 500)
                   [(''error'', JStr ''Server configuration error''),
                    (''hint'', JStr ''MOLTBOOK_APP_KEY is not configured'')]
                   (start r))
      else
        (case verify_try e remote identityToken (start r) of
           (None, st) \<Rightarrow> Returns st
         | (Some x, st) \<Rightarrow>
             Returns (send_json (JNum 500)
                        [(''error'', JStr ''Failed to verify identity''),
                         (''hint'', JStr ''An error occurred while verifying your identity. Please try again.'')]
                        st)))"

text \<open>
  \<open>verifyIdentityToken\<close>: what the promise settles to, and the outbound calls made.
\<close>

definition verifyIdentityToken :: "env \<Rightarrow> remote \<Rightarrow> jsval \<Rightarrow> jsval completion \<times> outbound list" where
  "verifyIdentityToken e remote identityToken =
     (if \<not> truthy (env_value (MOLTBOOK_APP_KEY e)) then
        (Throws (Error ''MOLTBOOK_APP_KEY environment variable is not set''), [])
      else
        (let c = verify_call e identityToken in
         case remote c of
           Rejects f \<Rightarrow> (Throws (FetchFailed f), [c])
         | Resolves NotJson \<Rightarrow> (Throws SyntaxError, [c])
         | Resolves (Json data) \<Rightarrow> (Returns data, [c])))"

section \<open>\<open>moltbook-auth.types.ts\<close>: the class \<open>MoltbookAuthMiddleware\<close>\<close>

text \<open>
  The configuration object. Every member is a string or missing; \<open>apiKey\<close> is
  declared required, but the documented use passes \<open>process.env.MOLTBOOK_APP_KEY!\<close>,
  which is \<open>undefined\<close> at run time when the variable is unset.
\<close>

record MoltbookAuthConfig =
  cfg_apiKey :: "string option"
  cfg_audience :: "string option"
  cfg_verifyEndpoint :: "string option"
  cfg_headerName :: "string option"

record auth =
  apiKey :: "string option"
  audience :: string
  verifyEndpoint :: string
  headerName :: string

text \<open>\<open>x || d\<close> for a string or \<open>undefined\<close> on the left and a string on the right.\<close>

definition str_or :: "string option \<Rightarrow> string \<Rightarrow> string" where
  "str_or x d = (case x of None \<Rightarrow> d | Some s \<Rightarrow> if s = [] then d else s)"

definition new_auth :: "MoltbookAuthConfig \<Rightarrow> auth" where
  "new_auth config =
     \<lparr>apiKey = cfg_apiKey config,
      audience = str_or (cfg_audience config) ''default'',
      verifyEndpoint =
        str_or (cfg_verifyEndpoint config) ''https://moltbook.com/api/v1/agents/verify-identity'',
      headerName = str_or (cfg_headerName config) ''x-moltbook-identity''\<rparr>"

definition ts_statusMap :: "(string \<times> jsval) list" where
  "ts_statusMap =
     [(''identity_token_expired'', JNum 401),
      (''invalid_token'', JNum 401),
      (''agent_not_found'', JNum 404),
      (''agent_deactivated'', JNum 403),
      (''audience_required'', JNum 401),
      (''audience_mismatch'', JNum 401),
      (''rate_limit_exceeded'', JNum 429),
      (''missing_app_key'', JNum 401),
      (''invalid_app_key'', JNum 401)]"

definition ts_getStatusCodeForError :: "jsval \<Rightarrow> exn + jsval" where
  "ts_getStatusCodeForError error =
     (case to_string error of
        Inl x \<Rightarrow> Inl x
      | Inr k \<Rightarrow> Inr (js_or (js_lookup ts_statusMap k) (JNum 401)))"

definition ts_hints :: "(string \<times> jsval) list" where
  "ts_hints =
     [(''identity_token_expired'',
         JStr ''Your identity token has expired. Request a new token from Moltbook and try again.''),
      (''invalid_token'', JStr ''The identity token is malformed or has been tampered with.''),
      (''agent_not_found'', JStr ''The agent associated with this token no longer exists.''),
      (''agent_deactivated'', JStr ''This agent has been deactivated or banned.''),
      (''audience_required'', JStr ''This token requires audience verification.''),
      (''audience_mismatch'', JStr ''This token was issued for a different service.''),
      (''rate_limit_exceeded'',
         JStr ''Too many verification requests. Please wait and try again.''),
      (''missing_app_key'', JStr ''The server is not configured with a Moltbook app key.''),
      (''invalid_app_key'',
         JStr ''The server's Moltbook app key is invalid or has been revoked.'')]"

definition ts_getErrorHint :: "jsval \<Rightarrow> exn + jsval" where
  "ts_getErrorHint error =
     (case to_string error of
        Inl x \<Rightarrow> Inl x
      | Inr k \<Rightarrow> Inr (js_or (js_lookup ts_hints k) (JStr ''Identity verification failed.'')))"

text \<open>\<open>identityToken[0]\<close>, read when the header value is not a string.\<close>

fun get_index0 :: "jsval \<Rightarrow> exn + jsval" where
  "get_index0 JUndefined = Inl TypeError"
| "get_index0 JNull = Inl TypeError"
| "get_index0 (JArr []) = Inr JUndefined"
| "get_index0 (JArr (x # xs)) = Inr x"
| "get_index0 (JStr []) = Inr JUndefined"
| "get_index0 (JStr (c # cs)) = Inr (JStr [c])"
| "get_index0 (JObj fs) = Inr (js_lookup fs ''0'')"
| "get_index0 v = Inr JUndefined"

definition ts_verify_call :: "auth \<Rightarrow> jsval \<Rightarrow> outbound" where
  "ts_verify_call a token =
     \<lparr>url = verifyEndpoint a,
      http_method = ''POST'',
      out_headers = [(''Content-Type'', JStr ''application/json''),
                     (''X-Moltbook-App-Key'', env_value (apiKey a))],
      out_body = json_stringify [(''token'', token), (''audience'', JStr (audience a))]\<rparr>"

text \<open>\<open>v?.k\<close>: \<open>undefined\<close> when \<open>v\<close> is \<open>null\<close> or \<open>undefined\<close>.\<close>

fun get_prop_optional :: "jsval \<Rightarrow> string \<Rightarrow> jsval" where
  "get_prop_optional JUndefined k = JUndefined"
| "get_prop_optional JNull k = JUndefined"
| "get_prop_optional (JObj fs) k = js_lookup fs k"
| "get_prop_optional v k = js_lookup [] k"

text \<open>The log line of the class:
  \<open>`[Moltbook] Verified agent: ${data.agent?.name} (karma: ${data.agent?.karma})`\<close>.\<close>

definition ts_verified_log_line :: "jsval \<Rightarrow> exn + string" where
  "ts_verified_log_line agent =
     (case to_string (get_prop_optional agent ''name'') of
        Inl x \<Rightarrow> Inl x
      | Inr n \<Rightarrow>
          (case to_string (get_prop_optional agent ''karma'') of
             Inl x \<Rightarrow> Inl x
           | Inr k \<Rightarrow> Inr (''[Moltbook] Verified agent: '' @ n @ '' (karma: '' @ k @ '')'')))"

text \<open>The \<open>try\<close> block of the method \<open>verify\<close>.\<close>

definition ts_verify_try :: "auth \<Rightarrow> remote \<Rightarrow> jsval \<Rightarrow> effects \<Rightarrow> exn option \<times> effects" where
  "ts_verify_try a remote identityToken st0 =
     (case (case identityToken of JStr s \<Rightarrow> Inr identityToken | v \<Rightarrow> get_index0 v) of
        Inl x \<Rightarrow> (Some x, st0)
      | Inr token \<Rightarrow>
          (let c = ts_verify_call a token; st1 = do_fetch c st0 in
           case remote c of
             Rejects f \<Rightarrow> (Some (FetchFailed f), st1)
           | Resolves NotJson \<Rightarrow> (Some SyntaxError, st1)
           | Resolves (Json data) \<Rightarrow>
               (case get_prop data ''valid'' of
                  Inl x \<Rightarrow> (Some x, st1)
                | Inr valid \<Rightarrow>
                    if \<not> truthy valid then
                      (case get_prop data ''error'' of
                         Inl x \<Rightarrow> (Some x, st1)
                       | Inr err \<Rightarrow>
                           (case ts_getStatusCodeForError err of
                              Inl x \<Rightarrow> (Some x, st1)
                            | Inr statusCode \<Rightarrow>
                                (case ts_getErrorHint err of
                                   Inl x \<Rightarrow> (Some x, st1)
                                 | Inr hint \<Rightarrow>
                                     (None, send_json statusCode
                                              [(''error'', err), (''hint'', hint)] st1))))
                    else
                      (case get_prop data ''agent'' of
                         Inl x \<Rightarrow> (Some x, st1)
                       | Inr agent \<Rightarrow>
                           (let st2 = attach_agent agent st1 in
                            case ts_verified_log_line agent of
                              Inl x \<Rightarrow> (Some x, st2)
                            | Inr line \<Rightarrow> (None, call_next st2))))))"

definition ts_verify :: "auth \<Rightarrow> remote \<Rightarrow> request \<Rightarrow> effects completion" where
  "ts_verify a remote r =
     (let identityToken = js_lookup (headers r) (headerName a) in
      if \<not> truthy identityToken then
        Returns (send_json (JNum 401)
                   [(''error'', JStr ''Missing identity token''),
                    (''hint'', JStr (''Include '' @ headerName a @ '' header with your identity token''))]
                   (start r))
      else if \<not> truthy (env_value (apiKey a)) then
        Returns (send_json (JNum 500)
                   [(''error'', JStr ''Server configuration error''),
                    (''hint'', JStr ''MOLTBOOK_APP_KEY is not configured'')]
                   (start r))
      else
        (case ts_verify_try a remote identityToken (start r) of
           (None, st) \<Rightarrow> Returns st
         | (Some x, st) \<Rightarrow>
             Returns (send_json (JNum 500)
                        [(''error'', JStr ''Failed to verify identity''),
                         (''hint'', JStr ''An error occurred while verifying your identity. Please try again.'')]
                        st)))"

definition createMoltbookMiddleware :: "MoltbookAuthConfig \<Rightarrow> remote \<Rightarrow> request \<Rightarrow> effects completion" where
  "createMoltbookMiddleware config = ts_verify (new_auth config)"

definition ts_verifyToken :: "auth \<Rightarrow> remote \<Rightarrow> jsval \<Rightarrow> jsval completion \<times> outbound list" where
  "ts_verifyToken a remote identityToken =
     (if \<not> truthy (env_value (apiKey a)) then
        (Throws (Error ''MOLTBOOK_APP_KEY environment variable is not set''), [])
      else
        (let c = ts_verify_call a identityToken in
         case remote c of
           Rejects f \<Rightarrow> (Throws (FetchFailed f), [c])
         | Resolves NotJson \<Rightarrow> (Throws SyntaxError, [c])
         | Resolves (Json data) \<Rightarrow> (Returns data, [c])))"

section \<open>Named responses and remote behaviours used in the statements\<close>

text \<open>The three responses the middleware builds from literals.\<close>

definition missing_token_response :: response where
  "missing_token_response =
     \<lparr>status = JNum 401,
      json_body = [(''error'', JStr ''Missing identity token''),
                   (''hint'', JStr ''Include X-Moltbook-Identity header with your identity token'')]\<rparr>"

definition ts_missing_token_response :: "auth \<Rightarrow> response" where
  "ts_missing_token_response a =
     \<lparr>status = JNum 401,
      json_body = [(''error'', JStr ''Missing identity token''),
                   (''hint'', JStr (''Include '' @ headerName a @ '' header with your identity token''))]\<rparr>"

definition configuration_error_response :: response where
  "configuration_error_response =
     \<lparr>status = JNum 500,
      json_body = [(''error'', JStr ''Server configuration error''),
                   (''hint'', JStr ''MOLTBOOK_APP_KEY is not configured'')]\<rparr>"

definition verification_failure_response :: response where
  "verification_failure_response =
     \<lparr>status = JNum 500,
      json_body = [(''error'', JStr ''Failed to verify identity''),
                   (''hint'', JStr ''An error occurred while verifying your identity. Please try again.'')]\<rparr>"

text \<open>A remote that cannot be reached, and one that answers every call with the same
  JSON value.\<close>

definition unreachable :: remote where
  "unreachable c = Rejects NetworkError"

definition answers :: "jsval \<Rightarrow> remote" where
  "answers data c = Resolves (Json data)"

definition times_out :: remote where
  "times_out c = Rejects Timeout"

definition answers_garbage :: remote where
  "answers_garbage c = Resolves NotJson"

definition rate_limited_body :: jsval where
  "rate_limited_body = JObj [(''valid'', JBool False), (''error'', JStr ''rate_limit_exceeded'')]"

definition expired_body :: jsval where
  "expired_body =
     JObj [(''success'', JBool False), (''valid'', JBool False),
           (''error'', JStr ''identity_token_expired''),
           (''hint'', JStr ''Token expired. Request a new token.'')]"

definition bot_body :: jsval where
  "bot_body =
     JObj [(''valid'', JBool True),
           (''agent'', JObj [(''id'', JStr ''u1''), (''name'', JStr ''Bot''), (''karma'', JNum 420)])]"

text \<open>
  The specification's VerificationResult has two variants, \<open>Verified {agent}\<close> and
  \<open>Rejected {errorCode, hint}\<close>. The next two functions follow the specification's
  words, not the code: they read that result off what each entry point hands its
  caller, so that the two can be compared. For the request-interception form it is what
  was attached to the request or written into the response body; for the standalone form
  it is the members of the returned object.
\<close>

datatype classification = Verified jsval | Rejected jsval jsval | Unclassified

definition request_classification :: "effects completion \<Rightarrow> classification" where
  "request_classification c =
     (case c of
        Throws x \<Rightarrow> Unclassified
      | Returns st \<Rightarrow>
          (case sent st of
             [] \<Rightarrow> if next_calls st = 1 then Verified (moltbookAgent (req st)) else Unclassified
           | [p] \<Rightarrow>
               if next_calls st = 0
               then Rejected (js_lookup (json_body p) ''error'') (js_lookup (json_body p) ''hint'')
               else Unclassified
           | p # q # ps \<Rightarrow> Unclassified))"

definition result_classification :: "jsval completion \<Rightarrow> classification" where
  "result_classification c =
     (case c of
        Throws x \<Rightarrow> Unclassified
      | Returns data \<Rightarrow>
          (case data of
             JObj d \<Rightarrow>
               if truthy (js_lookup d ''valid'') then Verified (js_lookup d ''agent'')
               else Rejected (js_lookup d ''error'') (js_lookup d ''hint'')
           | v \<Rightarrow> Unclassified))"

section \<open>The paths through the two middlewares\<close>

lemmas effect_defs = start_def send_json_def do_fetch_def call_next_def attach_agent_def

lemma header_absent_undefined:
  "map_of hs ''x-moltbook-identity'' = None \<Longrightarrow> js_lookup hs ''x-moltbook-identity'' = JUndefined"
  by (simp add: js_lookup_def object_prototype_keys_def)

lemma header_present: "map_of hs k = Some v \<Longrightarrow> js_lookup hs k = v"
  by (simp add: js_lookup_def)

lemma js_no_token:
  assumes "\<not> truthy (js_lookup (headers r) ''x-moltbook-identity'')"
  shows "verifyMoltbookIdentity e remote r =
           Returns \<lparr>req = r, sent = [missing_token_response], next_calls = 0, fetched = []\<rparr>"
  using assms
  by (simp add: verifyMoltbookIdentity_def effect_defs missing_token_response_def)

lemma js_no_key:
  assumes "truthy (js_lookup (headers r) ''x-moltbook-identity'')"
    and "\<not> truthy (env_value (MOLTBOOK_APP_KEY e))"
  shows "verifyMoltbookIdentity e remote r =
           Returns \<lparr>req = r, sent = [configuration_error_response], next_calls = 0, fetched = []\<rparr>"
  using assms
  by (simp add: verifyMoltbookIdentity_def effect_defs configuration_error_response_def)

lemma js_try:
  assumes "truthy (js_lookup (headers r) ''x-moltbook-identity'')"
    and "truthy (env_value (MOLTBOOK_APP_KEY e))"
  shows "verifyMoltbookIdentity e remote r =
           (case verify_try e remote (js_lookup (headers r) ''x-moltbook-identity'') (start r) of
              (None, st) \<Rightarrow> Returns st
            | (Some x, st) \<Rightarrow> Returns (st\<lparr>sent := sent st @ [verification_failure_response]\<rparr>))"
  using assms
  by (simp add: verifyMoltbookIdentity_def send_json_def verification_failure_response_def
      split: prod.split option.split)

lemma try_transport_failure:
  assumes "remote (verify_call e t) = Rejects f \<or> remote (verify_call e t) = Resolves NotJson"
  shows "\<exists>x. verify_try e remote t st = (Some x, do_fetch (verify_call e t) st)"
  using assms by (auto simp: verify_try_def Let_def)

lemma try_rejected:
  assumes "remote (verify_call e t) = Resolves (Json data)"
    and "get_prop data ''valid'' = Inr v" and "\<not> truthy v"
    and "get_prop data ''error'' = Inr err"
    and "getStatusCodeForError err = Inr code" and "getErrorHint err = Inr hint"
  shows "verify_try e remote t st =
           (None, send_json code [(''error'', err), (''hint'', hint)]
                    (do_fetch (verify_call e t) st))"
  using assms by (simp add: verify_try_def Let_def)

lemma try_verified:
  assumes "remote (verify_call e t) = Resolves (Json data)"
    and "get_prop data ''valid'' = Inr v" and "truthy v"
    and "get_prop data ''agent'' = Inr A" and "verified_log_line A = Inr line"
  shows "verify_try e remote t st =
           (None, call_next (attach_agent A (do_fetch (verify_call e t) st)))"
  using assms by (simp add: verify_try_def Let_def)

lemma try_log_line_fails:
  assumes "remote (verify_call e t) = Resolves (Json data)"
    and "get_prop data ''valid'' = Inr v" and "truthy v"
    and "get_prop data ''agent'' = Inr A" and "verified_log_line A = Inl x"
  shows "verify_try e remote t st = (Some x, attach_agent A (do_fetch (verify_call e t) st))"
  using assms by (simp add: verify_try_def Let_def)

lemma key_configured: "k \<noteq> [] \<Longrightarrow> truthy (env_value (Some k))"
  by (simp add: env_value_def)

lemma key_unset: "\<not> truthy (env_value None)" "\<not> truthy (env_value (Some []))"
  by (simp_all add: env_value_def)

lemma js_transport_failure:
  assumes "truthy (js_lookup (headers r) ''x-moltbook-identity'')"
    and "truthy (env_value (MOLTBOOK_APP_KEY e))"
    and "remote (verify_call e (js_lookup (headers r) ''x-moltbook-identity'')) = Rejects f
         \<or> remote (verify_call e (js_lookup (headers r) ''x-moltbook-identity'')) = Resolves NotJson"
  shows "verifyMoltbookIdentity e remote r =
           Returns \<lparr>req = r, sent = [verification_failure_response], next_calls = 0,
                    fetched = [verify_call e (js_lookup (headers r) ''x-moltbook-identity'')]\<rparr>"
proof -
  from assms(3) try_transport_failure [of remote e "js_lookup (headers r) ''x-moltbook-identity''" f "start r"]
  obtain x where
    "verify_try e remote (js_lookup (headers r) ''x-moltbook-identity'') (start r)
       = (Some x, do_fetch (verify_call e (js_lookup (headers r) ''x-moltbook-identity'')) (start r))"
    by blast
  then show ?thesis
    by (simp add: js_try [OF assms(1,2)] effect_defs)
qed

lemma js_verified:
  assumes "truthy (js_lookup (headers r) ''x-moltbook-identity'')"
    and "truthy (env_value (MOLTBOOK_APP_KEY e))"
    and "remote (verify_call e (js_lookup (headers r) ''x-moltbook-identity'')) = Resolves (Json data)"
    and "get_prop data ''valid'' = Inr v" and "truthy v"
    and "get_prop data ''agent'' = Inr A" and "verified_log_line A = Inr line"
  shows "verifyMoltbookIdentity e remote r =
           Returns \<lparr>req = r\<lparr>moltbookAgent := A\<rparr>, sent = [], next_calls = 1,
                    fetched = [verify_call e (js_lookup (headers r) ''x-moltbook-identity'')]\<rparr>"
  using assms(3-7) by (simp add: js_try [OF assms(1,2)] try_verified effect_defs)

lemma js_rejected:
  assumes "truthy (js_lookup (headers r) ''x-moltbook-identity'')"
    and "truthy (env_value (MOLTBOOK_APP_KEY e))"
    and "remote (verify_call e (js_lookup (headers r) ''x-moltbook-identity'')) = Resolves (Json data)"
    and "get_prop data ''valid'' = Inr v" and "\<not> truthy v"
    and "get_prop data ''error'' = Inr err"
    and "getStatusCodeForError err = Inr code" and "getErrorHint err = Inr hint"
  shows "verifyMoltbookIdentity e remote r =
           Returns \<lparr>req = r,
                    sent = [\<lparr>status = code, json_body = [(''error'', err), (''hint'', hint)]\<rparr>],
                    next_calls = 0,
                    fetched = [verify_call e (js_lookup (headers r) ''x-moltbook-identity'')]\<rparr>"
  using assms(3-8) by (simp add: js_try [OF assms(1,2)] try_rejected effect_defs)

lemma ts_no_token:
  assumes "\<not> truthy (js_lookup (headers r) (headerName a))"
  shows "ts_verify a remote r =
           Returns \<lparr>req = r, sent = [ts_missing_token_response a], next_calls = 0, fetched = []\<rparr>"
  using assms
  by (simp add: ts_verify_def effect_defs ts_missing_token_response_def)

lemma ts_no_key:
  assumes "truthy (js_lookup (headers r) (headerName a))"
    and "\<not> truthy (env_value (apiKey a))"
  shows "ts_verify a remote r =
           Returns \<lparr>req = r, sent = [configuration_error_response], next_calls = 0, fetched = []\<rparr>"
  using assms
  by (simp add: ts_verify_def effect_defs configuration_error_response_def)

lemma ts_try:
  assumes "truthy (js_lookup (headers r) (headerName a))"
    and "truthy (env_value (apiKey a))"
  shows "ts_verify a remote r =
           (case ts_verify_try a remote (js_lookup (headers r) (headerName a)) (start r) of
              (None, st) \<Rightarrow> Returns st
            | (Some x, st) \<Rightarrow> Returns (st\<lparr>sent := sent st @ [verification_failure_response]\<rparr>))"
  using assms
  by (simp add: ts_verify_def send_json_def verification_failure_response_def
      split: prod.split option.split)

lemma ts_try_string_token:
  "ts_verify_try a remote (JStr s) st =
     (let c = ts_verify_call a (JStr s); st1 = do_fetch c st in
      case remote c of
        Rejects f \<Rightarrow> (Some (FetchFailed f), st1)
      | Resolves NotJson \<Rightarrow> (Some SyntaxError, st1)
      | Resolves (Json data) \<Rightarrow>
          (case get_prop data ''valid'' of
             Inl x \<Rightarrow> (Some x, st1)
           | Inr valid \<Rightarrow>
               if \<not> truthy valid then
                 (case get_prop data ''error'' of
                    Inl x \<Rightarrow> (Some x, st1)
                  | Inr err \<Rightarrow>
                      (case ts_getStatusCodeForError err of
                         Inl x \<Rightarrow> (Some x, st1)
                       | Inr statusCode \<Rightarrow>
                           (case ts_getErrorHint err of
                              Inl x \<Rightarrow> (Some x, st1)
                            | Inr hint \<Rightarrow>
                                (None, send_json statusCode
                                         [(''error'', err), (''hint'', hint)] st1))))
               else
                 (case get_prop data ''agent'' of
                    Inl x \<Rightarrow> (Some x, st1)
                  | Inr agent \<Rightarrow>
                      (let st2 = attach_agent agent st1 in
                       case ts_verified_log_line agent of
                         Inl x \<Rightarrow> (Some x, st2)
                       | Inr line \<Rightarrow> (None, call_next st2)))))"
  by (simp add: ts_verify_try_def)

lemma ts_transport_failure:
  assumes "js_lookup (headers r) (headerName a) = JStr s" and "s \<noteq> []"
    and "truthy (env_value (apiKey a))"
    and "remote (ts_verify_call a (JStr s)) = Rejects f
         \<or> remote (ts_verify_call a (JStr s)) = Resolves NotJson"
  shows "ts_verify a remote r =
           Returns \<lparr>req = r, sent = [verification_failure_response], next_calls = 0,
                    fetched = [ts_verify_call a (JStr s)]\<rparr>"
proof -
  from assms(1,2) have t: "truthy (js_lookup (headers r) (headerName a))" by simp
  from assms(4) show ?thesis
    by (auto simp: ts_try [OF t assms(3)] assms(1) ts_try_string_token Let_def effect_defs)
qed


lemma ts_rejected:
  assumes "js_lookup (headers r) (headerName a) = JStr s" and "s \<noteq> []"
    and "truthy (env_value (apiKey a))"
    and "remote (ts_verify_call a (JStr s)) = Resolves (Json data)"
    and "get_prop data ''valid'' = Inr v" and "\<not> truthy v"
    and "get_prop data ''error'' = Inr err"
    and "ts_getStatusCodeForError err = Inr code" and "ts_getErrorHint err = Inr hint"
  shows "ts_verify a remote r =
           Returns \<lparr>req = r,
                    sent = [\<lparr>status = code, json_body = [(''error'', err), (''hint'', hint)]\<rparr>],
                    next_calls = 0,
                    fetched = [ts_verify_call a (JStr s)]\<rparr>"
proof -
  from assms(1,2) have t: "truthy (js_lookup (headers r) (headerName a))" by simp
  from assms(4-9) show ?thesis
    by (simp add: ts_try [OF t assms(3)] assms(1) ts_try_string_token Let_def effect_defs)
qed

lemma js_log_line_fails:
  assumes "truthy (js_lookup (headers r) ''x-moltbook-identity'')"
    and "truthy (env_value (MOLTBOOK_APP_KEY e))"
    and "remote (verify_call e (js_lookup (headers r) ''x-moltbook-identity'')) = Resolves (Json data)"
    and "get_prop data ''valid'' = Inr v" and "truthy v"
    and "get_prop data ''agent'' = Inr A" and "verified_log_line A = Inl x"
  shows "verifyMoltbookIdentity e remote r =
           Returns \<lparr>req = r\<lparr>moltbookAgent := A\<rparr>, sent = [verification_failure_response],
                    next_calls = 0,
                    fetched = [verify_call e (js_lookup (headers r) ''x-moltbook-identity'')]\<rparr>"
  using assms(3-7) by (simp add: js_try [OF assms(1,2)] try_log_line_fails effect_defs)


lemma karma_420: "show_int 420 = ''420''"
  by code_simp

lemma verify_try_paths:
  assumes "verify_try e remote t (start r) = (x, st)"
  shows "fetched st = [verify_call e t]"
    and "headers (req st) = headers r"
    and "x = None \<Longrightarrow> (sent st = [] \<and> next_calls st = 1)
                        \<or> (length (sent st) = 1 \<and> next_calls st = 0 \<and> req st = r)"
    and "x \<noteq> None \<Longrightarrow> sent st = [] \<and> next_calls st = 0
           \<and> (req st = r
               \<or> (\<exists>data v A y. remote (verify_call e t) = Resolves (Json data)
                      \<and> get_prop data ''valid'' = Inr v \<and> truthy v
                      \<and> get_prop data ''agent'' = Inr A \<and> verified_log_line A = Inl y
                      \<and> req st = r\<lparr>moltbookAgent := A\<rparr>))"
  using assms
  by (auto simp: verify_try_def Let_def effect_defs
      split: fetch_outcome.splits remote_body.splits sum.splits if_splits)

lemma ts_verify_try_paths:
  assumes "ts_verify_try a remote t (start r) = (x, st)"
  shows "fetched st = [] \<or> (\<exists>tok. fetched st = [ts_verify_call a tok])"
    and "headers (req st) = headers r"
    and "x = None \<Longrightarrow> (sent st = [] \<and> next_calls st = 1)
                        \<or> (length (sent st) = 1 \<and> next_calls st = 0 \<and> req st = r)"
    and "x \<noteq> None \<Longrightarrow> sent st = [] \<and> next_calls st = 0
           \<and> (req st = r
               \<or> (\<exists>A y. ts_verified_log_line A = Inl y \<and> req st = r\<lparr>moltbookAgent := A\<rparr>))"
  using assms
  by (auto simp: ts_verify_try_def Let_def effect_defs
      split: fetch_outcome.splits remote_body.splits sum.splits if_splits jsval.splits)

lemma js_run:
  "\<exists>st. verifyMoltbookIdentity e remote r = Returns st
      \<and> length (sent st) + next_calls st = 1
      \<and> (fetched st = [] \<or> fetched st = [verify_call e (js_lookup (headers r) ''x-moltbook-identity'')])
      \<and> headers (req st) = headers r
      \<and> (sent st \<noteq> [] \<longrightarrow> next_calls st = 0
            \<and> (req st = r
                \<or> sent st = [verification_failure_response]
                  \<and> (\<exists>data v A y.
                        remote (verify_call e (js_lookup (headers r) ''x-moltbook-identity''))
                          = Resolves (Json data)
                        \<and> get_prop data ''valid'' = Inr v \<and> truthy v
                        \<and> get_prop data ''agent'' = Inr A \<and> verified_log_line A = Inl y
                        \<and> req st = r\<lparr>moltbookAgent := A\<rparr>)))"
proof (cases "truthy (js_lookup (headers r) ''x-moltbook-identity'')")
  case False
  then show ?thesis by (simp add: js_no_token)
next
  case tok: True
  show ?thesis
  proof (cases "truthy (env_value (MOLTBOOK_APP_KEY e))")
    case False
    with tok show ?thesis by (simp add: js_no_key)
  next
    case True
    obtain x st where t: "verify_try e remote (js_lookup (headers r) ''x-moltbook-identity'') (start r) = (x, st)"
      by (cases "verify_try e remote (js_lookup (headers r) ''x-moltbook-identity'') (start r)")
    show ?thesis
    proof (cases x)
      case None
      with verify_try_paths [OF t] t show ?thesis
        by (auto simp: js_try [OF tok True])
    next
      case (Some y)
      with verify_try_paths [OF t] t show ?thesis
        by (auto simp: js_try [OF tok True])
    qed
  qed
qed

lemma ts_run:
  "\<exists>st. ts_verify a remote r = Returns st
      \<and> length (sent st) + next_calls st = 1
      \<and> (fetched st = [] \<or> (\<exists>tok. fetched st = [ts_verify_call a tok]))
      \<and> headers (req st) = headers r
      \<and> (sent st \<noteq> [] \<longrightarrow> next_calls st = 0
            \<and> (req st = r
                \<or> sent st = [verification_failure_response]
                  \<and> (\<exists>A y. ts_verified_log_line A = Inl y \<and> req st = r\<lparr>moltbookAgent := A\<rparr>)))"
proof (cases "truthy (js_lookup (headers r) (headerName a))")
  case False
  then show ?thesis by (simp add: ts_no_token)
next
  case tok: True
  show ?thesis
  proof (cases "truthy (env_value (apiKey a))")
    case False
    with tok show ?thesis by (simp add: ts_no_key)
  next
    case True
    obtain x st where t: "ts_verify_try a remote (js_lookup (headers r) (headerName a)) (start r) = (x, st)"
      by (cases "ts_verify_try a remote (js_lookup (headers r) (headerName a)) (start r)")
    show ?thesis
    proof (cases x)
      case None
      with ts_verify_try_paths [OF t] t show ?thesis
        by (auto simp: ts_try [OF tok True])
    next
      case (Some y)
      with ts_verify_try_paths [OF t] t show ?thesis
        by (auto simp: ts_try [OF tok True])
    qed
  qed
qed

lemma js_reaches_call:
  assumes "truthy (js_lookup (headers r) ''x-moltbook-identity'')"
    and "truthy (env_value (MOLTBOOK_APP_KEY e))"
  shows "\<exists>st. verifyMoltbookIdentity e remote r = Returns st
           \<and> fetched st = [verify_call e (js_lookup (headers r) ''x-moltbook-identity'')]"
proof -
  obtain x st where
    t: "verify_try e remote (js_lookup (headers r) ''x-moltbook-identity'') (start r) = (x, st)"
    by (cases "verify_try e remote (js_lookup (headers r) ''x-moltbook-identity'') (start r)")
  from verify_try_paths(1) [OF t] t show ?thesis
    by (cases x) (simp_all add: js_try [OF assms])
qed

lemma ts_reaches_call:
  assumes "js_lookup (headers r) (headerName a) = JStr s" and "s \<noteq> []"
    and "truthy (env_value (apiKey a))"
  shows "\<exists>st. ts_verify a remote r = Returns st \<and> fetched st = [ts_verify_call a (JStr s)]"
proof -
  from assms(1,2) have tok: "truthy (js_lookup (headers r) (headerName a))" by simp
  obtain x st where t: "ts_verify_try a remote (JStr s) (start r) = (x, st)"
    by (cases "ts_verify_try a remote (JStr s) (start r)")
  then have "fetched st = [ts_verify_call a (JStr s)]"
    by (auto simp: ts_try_string_token Let_def effect_defs
        split: fetch_outcome.splits remote_body.splits sum.splits if_splits)
  with t show ?thesis
    by (cases x) (simp_all add: ts_try [OF tok assms(3)] assms(1))
qed

lemma standalone_no_key:
  "\<not> truthy (env_value (MOLTBOOK_APP_KEY e)) \<Longrightarrow>
     verifyIdentityToken e remote t =
       (Throws (Error ''MOLTBOOK_APP_KEY environment variable is not set''), [])"
  by (simp add: verifyIdentityToken_def)

lemma standalone_with_key:
  "truthy (env_value (MOLTBOOK_APP_KEY e)) \<Longrightarrow>
     verifyIdentityToken e remote t =
       (case remote (verify_call e t) of
          Rejects f \<Rightarrow> Throws (FetchFailed f)
        | Resolves NotJson \<Rightarrow> Throws SyntaxError
        | Resolves (Json data) \<Rightarrow> Returns data,
        [verify_call e t])"
  by (simp add: verifyIdentityToken_def Let_def split: fetch_outcome.split remote_body.split)

lemma standalone_calls:
  "snd (verifyIdentityToken e remote t) = [] \<or> snd (verifyIdentityToken e remote t) = [verify_call e t]"
  by (cases "truthy (env_value (MOLTBOOK_APP_KEY e))")
     (simp_all add: standalone_no_key standalone_with_key)

lemma ts_standalone_calls:
  "snd (ts_verifyToken a remote t) = [] \<or> snd (ts_verifyToken a remote t) = [ts_verify_call a t]"
  by (simp add: ts_verifyToken_def Let_def split: fetch_outcome.split remote_body.split)

lemma ts_standalone_no_key:
  "\<not> truthy (env_value (apiKey a)) \<Longrightarrow>
     ts_verifyToken a remote t =
       (Throws (Error ''MOLTBOOK_APP_KEY environment variable is not set''), [])"
  by (simp add: ts_verifyToken_def)

lemma ts_standalone_with_key:
  "truthy (env_value (apiKey a)) \<Longrightarrow>
     ts_verifyToken a remote t =
       (case remote (ts_verify_call a t) of
          Rejects f \<Rightarrow> Throws (FetchFailed f)
        | Resolves NotJson \<Rightarrow> Throws SyntaxError
        | Resolves (Json data) \<Rightarrow> Returns data,
        [ts_verify_call a t])"
  by (simp add: ts_verifyToken_def Let_def split: fetch_outcome.split remote_body.split)

lemma audience_of_call:
  "map_of (out_body (verify_call e t)) ''audience'' =
     Some (JStr (case MOLTBOOK_AUDIENCE e of
                   None \<Rightarrow> ''default''
                 | Some x \<Rightarrow> if x = [] then ''default'' else x))"
  by (simp add: verify_call_def json_stringify_def MY_DOMAIN_def js_or_def env_value_def
      split: option.split)

lemma ts_audience_of_call:
  "map_of (out_body (ts_verify_call (new_auth config) t)) ''audience'' =
     Some (JStr (case cfg_audience config of
                   None \<Rightarrow> ''default''
                 | Some x \<Rightarrow> if x = [] then ''default'' else x))"
  by (simp add: ts_verify_call_def json_stringify_def new_auth_def str_or_def
      split: option.split)

lemma token_of_call: "map_of (out_body (verify_call e (JStr s))) ''token'' = Some (JStr s)"
  by (simp add: verify_call_def json_stringify_def)

lemma ts_token_of_call: "map_of (out_body (ts_verify_call a (JStr s))) ''token'' = Some (JStr s)"
  by (simp add: ts_verify_call_def json_stringify_def)

lemma js_lookup_other_name: "k \<noteq> n \<Longrightarrow> js_lookup ((k, v) # hs) n = js_lookup hs n"
  by (simp add: js_lookup_def)

lemma js_lookup_exact_name: "js_lookup ((n, v) # hs) n = v"
  by (simp add: js_lookup_def)

lemma start_headers: "start (r\<lparr>headers := h\<rparr>) = (start r)\<lparr>req := (req (start r))\<lparr>headers := h\<rparr>\<rparr>"
  by (simp add: start_def)

lemma verify_try_headers:
  "verify_try e remote t (st0\<lparr>req := (req st0)\<lparr>headers := h\<rparr>\<rparr>) =
     (case verify_try e remote t st0 of (x, st) \<Rightarrow> (x, st\<lparr>req := (req st)\<lparr>headers := h\<rparr>\<rparr>))"
  by (simp add: verify_try_def Let_def effect_defs
      split: fetch_outcome.split remote_body.split sum.split)

lemma ts_verify_try_headers:
  "ts_verify_try a remote t (st0\<lparr>req := (req st0)\<lparr>headers := h\<rparr>\<rparr>) =
     (case ts_verify_try a remote t st0 of (x, st) \<Rightarrow> (x, st\<lparr>req := (req st)\<lparr>headers := h\<rparr>\<rparr>))"
  by (simp add: ts_verify_try_def Let_def effect_defs
      split: fetch_outcome.split remote_body.split sum.split)

lemma js_other_headers:
  assumes "js_lookup h ''x-moltbook-identity'' = js_lookup (headers r) ''x-moltbook-identity''"
  shows "verifyMoltbookIdentity e remote (r\<lparr>headers := h\<rparr>) =
           (case verifyMoltbookIdentity e remote r of
              Returns st \<Rightarrow> Returns (st\<lparr>req := (req st)\<lparr>headers := h\<rparr>\<rparr>)
            | Throws x \<Rightarrow> Throws x)"
proof (cases "truthy (js_lookup (headers r) ''x-moltbook-identity'')")
  case False
  with assms show ?thesis by (simp add: js_no_token)
next
  case tok: True
  with assms have tok': "truthy (js_lookup (headers (r\<lparr>headers := h\<rparr>)) ''x-moltbook-identity'')"
    by simp
  show ?thesis
  proof (cases "truthy (env_value (MOLTBOOK_APP_KEY e))")
    case False
    with tok tok' show ?thesis by (simp add: js_no_key)
  next
    case True
    show ?thesis
      by (simp add: js_try [OF tok True] js_try [OF tok' True] assms start_headers
          verify_try_headers split: prod.split option.split)
  qed
qed

lemma ts_other_headers:
  assumes "js_lookup h (headerName a) = js_lookup (headers r) (headerName a)"
  shows "ts_verify a remote (r\<lparr>headers := h\<rparr>) =
           (case ts_verify a remote r of
              Returns st \<Rightarrow> Returns (st\<lparr>req := (req st)\<lparr>headers := h\<rparr>\<rparr>)
            | Throws x \<Rightarrow> Throws x)"
proof (cases "truthy (js_lookup (headers r) (headerName a))")
  case False
  with assms show ?thesis by (simp add: ts_no_token)
next
  case tok: True
  with assms have tok': "truthy (js_lookup (headers (r\<lparr>headers := h\<rparr>)) (headerName a))"
    by simp
  show ?thesis
  proof (cases "truthy (env_value (apiKey a))")
    case False
    with tok tok' show ?thesis by (simp add: ts_no_key)
  next
    case True
    show ?thesis
      by (simp add: ts_try [OF tok True] ts_try [OF tok' True] assms start_headers
          ts_verify_try_headers split: prod.split option.split)
  qed
qed

lemma classify_rejected_run:
  "request_classification
     (Returns \<lparr>req = q, sent = [\<lparr>status = c, json_body = [(''error'', x), (''hint'', h)]\<rparr>],
               next_calls = 0, fetched = cs\<rparr>) = Rejected x h"
  by (simp add: request_classification_def js_lookup_def)

lemma classify_verified_run:
  "request_classification (Returns \<lparr>req = q, sent = [], next_calls = Suc 0, fetched = cs\<rparr>)
     = Verified (moltbookAgent q)"
  by (simp add: request_classification_def)

lemma classify_result_object:
  "result_classification (Returns (JObj d)) =
     (if truthy (js_lookup d ''valid'') then Verified (js_lookup d ''agent'')
      else Rejected (js_lookup d ''error'') (js_lookup d ''hint''))"
  by (simp add: result_classification_def)

lemma expired_hint:
  "getErrorHint (JStr ''identity_token_expired'') =
     Inr (JStr ''Your identity token has expired. Request a new token from Moltbook and try again.'')"
  by (simp add: getErrorHint_def js_or_def js_lookup_def hints_def)

lemma rate_limit_hint:
  "getErrorHint (JStr ''rate_limit_exceeded'') =
     Inr (JStr ''Too many verification requests. Please wait and try again.'')"
  by (simp add: getErrorHint_def js_or_def js_lookup_def hints_def)

section \<open>The status table\<close>

lemma status_table:
  "getStatusCodeForError (JStr ''identity_token_expired'') = Inr (JNum 401)"
  "getStatusCodeForError (JStr ''invalid_token'') = Inr (JNum 401)"
  "getStatusCodeForError (JStr ''agent_not_found'') = Inr (JNum 404)"
  "getStatusCodeForError (JStr ''agent_deactivated'') = Inr (JNum 403)"
  "getStatusCodeForError (JStr ''audience_required'') = Inr (JNum 401)"
  "getStatusCodeForError (JStr ''audience_mismatch'') = Inr (JNum 401)"
  "getStatusCodeForError (JStr ''rate_limit_exceeded'') = Inr (JNum 429)"
  "getStatusCodeForError (JStr ''missing_app_key'') = Inr (JNum 401)"
  "getStatusCodeForError (JStr ''invalid_app_key'') = Inr (JNum 401)"
  by (simp_all add: getStatusCodeForError_def js_or_def js_lookup_def statusMap_def)

lemma status_default:
  assumes "to_string error = Inr k"
    and "k \<notin> fst ` set statusMap" and "k \<notin> set object_prototype_keys"
  shows "getStatusCodeForError error = Inr (JNum 401)"
proof -
  from assms(2) have "map_of statusMap k = None"
    by (simp add: map_of_eq_None_iff)
  with assms(1,3) show ?thesis
    by (simp add: getStatusCodeForError_def js_or_def js_lookup_def)
qed

lemma hint_default:
  assumes "to_string error = Inr k"
    and "k \<notin> fst ` set hints" and "k \<notin> set object_prototype_keys"
  shows "getErrorHint error = Inr (JStr ''Identity verification failed.'')"
proof -
  from assms(2) have "map_of hints k = None"
    by (simp add: map_of_eq_None_iff)
  with assms(1,3) show ?thesis
    by (simp add: getErrorHint_def js_or_def js_lookup_def)
qed

lemma status_absent_error: "getStatusCodeForError JUndefined = Inr (JNum 401)"
  by (simp add: getStatusCodeForError_def js_or_def js_lookup_def statusMap_def
      object_prototype_keys_def)

lemma hint_absent_error:
  "getErrorHint JUndefined = Inr (JStr ''Identity verification failed.'')"
  by (simp add: getErrorHint_def js_or_def js_lookup_def hints_def object_prototype_keys_def)

lemma inherited_not_in_statusMap:
  "k \<in> set object_prototype_keys \<Longrightarrow> map_of statusMap k = None"
  unfolding object_prototype_keys_def statusMap_def
  by (elim disjE | simp)+

lemma status_inherited:
  assumes "k \<in> set object_prototype_keys"
  shows "getStatusCodeForError (JStr k) = Inr (JBuiltin k)"
  using assms inherited_not_in_statusMap [OF assms]
  by (simp add: getStatusCodeForError_def js_or_def js_lookup_def)

lemma tables_agree: "ts_statusMap = statusMap" "ts_hints = hints"
  by (simp_all add: ts_statusMap_def statusMap_def ts_hints_def hints_def)

lemma constructor_status:
  "getStatusCodeForError (JStr ''constructor'') = Inr (JBuiltin ''constructor'')"
  by (simp add: getStatusCodeForError_def js_or_def js_lookup_def statusMap_def
      object_prototype_keys_def)

lemma constructor_hint:
  "getErrorHint (JStr ''constructor'') = Inr (JBuiltin ''constructor'')"
  by (simp add: getErrorHint_def js_or_def js_lookup_def hints_def object_prototype_keys_def)

text \<open>
  C1. The nine codes of the table get their status (\<open>status_table\<close>), and a code that
  is neither in the table nor a property name of \<open>Object.prototype\<close> gets 401
  with the generic hint (\<open>status_default\<close>, \<open>hint_default\<close>,
  \<open>status_absent_error\<close>, \<open>hint_absent_error\<close>). The claim that every unrecognized
  code yields 401 with the generic hint fails for the remote answer
  \<open>{valid: false, error: "constructor"}\<close>: \<open>statusMap["constructor"]\<close> is the function
  inherited from \<open>Object.prototype\<close>, which is truthy, so \<open>|| 401\<close> does not apply.
  The middleware hands \<open>res.status\<close> that function instead of 401, and the hint is
  the same function instead of the generic text.
\<close>

theorem inherited_name_status_not_401:
  "getStatusCodeForError (JStr ''constructor'') = Inr (JBuiltin ''constructor'')
   \<and> getStatusCodeForError (JStr ''constructor'') \<noteq> Inr (JNum 401)
   \<and> getErrorHint (JStr ''constructor'') \<noteq> Inr (JStr ''Identity verification failed.'')
   \<and> verifyMoltbookIdentity
        \<lparr>MOLTBOOK_APP_KEY = Some ''moltdev_k'', MOLTBOOK_AUDIENCE = None\<rparr>
        (answers (JObj [(''valid'', JBool False), (''error'', JStr ''constructor'')]))
        \<lparr>headers = [(''x-moltbook-identity'', JStr ''tok123'')], moltbookAgent = JUndefined\<rparr>
     = Returns
        \<lparr>req = \<lparr>headers = [(''x-moltbook-identity'', JStr ''tok123'')], moltbookAgent = JUndefined\<rparr>,
         sent = [\<lparr>status = JBuiltin ''constructor'',
                  json_body = [(''error'', JStr ''constructor''),
                               (''hint'', JBuiltin ''constructor'')]\<rparr>],
         next_calls = 0,
         fetched = [\<lparr>url = ''https://moltbook.com/api/v1/agents/verify-identity'',
                     http_method = ''POST'',
                     out_headers = [(''Content-Type'', JStr ''application/json''),
                                    (''X-Moltbook-App-Key'', JStr ''moltdev_k'')],
                     out_body = [(''token'', JStr ''tok123''), (''audience'', JStr ''default'')]\<rparr>]\<rparr>"
  by (simp add: constructor_status constructor_hint js_lookup_def js_or_def
      verifyMoltbookIdentity_def verify_try_def verify_call_def answers_def effect_defs
      env_value_def MY_DOMAIN_def MOLTBOOK_VERIFY_ENDPOINT_def json_stringify_def Let_def)

section \<open>Locally detected errors\<close>

text \<open>
  C2. When the request's header object has no \<open>x-moltbook-identity\<close> entry, or has
  the empty string there, \<open>verifyMoltbookIdentity\<close> answers 401 with the
  missing-token body, leaves the request as it was, does not call \<open>next\<close> and issues
  no outbound call, whatever the credential and the remote are. The method \<open>verify\<close>
  of the class does the same for its configured header name (which must not be a
  property name that the header object inherits).
\<close>

theorem missing_token_401_without_outbound_call:
  "((map_of (headers r) ''x-moltbook-identity'' = None
      \<or> map_of (headers r) ''x-moltbook-identity'' = Some (JStr []))
     \<longrightarrow> verifyMoltbookIdentity e remote r =
           Returns \<lparr>req = r, sent = [missing_token_response], next_calls = 0, fetched = []\<rparr>)
   \<and> (headerName a \<notin> set object_prototype_keys
        \<and> (map_of (headers r) (headerName a) = None
             \<or> map_of (headers r) (headerName a) = Some (JStr []))
     \<longrightarrow> ts_verify a remote r =
           Returns \<lparr>req = r, sent = [ts_missing_token_response a], next_calls = 0, fetched = []\<rparr>)"
proof (intro conjI impI)
  assume "map_of (headers r) ''x-moltbook-identity'' = None
            \<or> map_of (headers r) ''x-moltbook-identity'' = Some (JStr [])"
  then have "\<not> truthy (js_lookup (headers r) ''x-moltbook-identity'')"
    by (auto simp: header_absent_undefined header_present)
  then show "verifyMoltbookIdentity e remote r =
      Returns \<lparr>req = r, sent = [missing_token_response], next_calls = 0, fetched = []\<rparr>"
    by (rule js_no_token)
next
  assume h: "headerName a \<notin> set object_prototype_keys
        \<and> (map_of (headers r) (headerName a) = None
             \<or> map_of (headers r) (headerName a) = Some (JStr []))"
  then have "\<not> truthy (js_lookup (headers r) (headerName a))"
    by (auto simp: js_lookup_def)
  then show "ts_verify a remote r =
      Returns \<lparr>req = r, sent = [ts_missing_token_response a], next_calls = 0, fetched = []\<rparr>"
    by (rule ts_no_token)
qed

text \<open>The theorem at a request with an empty header, and at one without headers.\<close>

theorem missing_token_401_witness:
  "verifyMoltbookIdentity \<lparr>MOLTBOOK_APP_KEY = Some ''moltdev_k'', MOLTBOOK_AUDIENCE = None\<rparr>
      unreachable \<lparr>headers = [(''x-moltbook-identity'', JStr [])], moltbookAgent = JUndefined\<rparr>
     = Returns \<lparr>req = \<lparr>headers = [(''x-moltbook-identity'', JStr [])], moltbookAgent = JUndefined\<rparr>,
                sent = [missing_token_response], next_calls = 0, fetched = []\<rparr>
   \<and> ts_verify (new_auth \<lparr>cfg_apiKey = Some ''moltdev_k'', cfg_audience = None,
                            cfg_verifyEndpoint = None, cfg_headerName = Some ''x-agent-token''\<rparr>)
      unreachable \<lparr>headers = [], moltbookAgent = JUndefined\<rparr>
     = Returns \<lparr>req = \<lparr>headers = [], moltbookAgent = JUndefined\<rparr>,
                sent = [\<lparr>status = JNum 401,
                         json_body = [(''error'', JStr ''Missing identity token''),
                                      (''hint'', JStr ''Include x-agent-token header with your identity token'')]\<rparr>],
                next_calls = 0, fetched = []\<rparr>"
  using missing_token_401_without_outbound_call
    [of "\<lparr>headers = [(''x-moltbook-identity'', JStr [])], moltbookAgent = JUndefined\<rparr>"
        "\<lparr>MOLTBOOK_APP_KEY = Some ''moltdev_k'', MOLTBOOK_AUDIENCE = None\<rparr>" unreachable
        "new_auth \<lparr>cfg_apiKey = Some ''moltdev_k'', cfg_audience = None,
                            cfg_verifyEndpoint = None, cfg_headerName = Some ''x-agent-token''\<rparr>"]
    missing_token_401_without_outbound_call
    [of "\<lparr>headers = [], moltbookAgent = JUndefined\<rparr>"
        "\<lparr>MOLTBOOK_APP_KEY = Some ''moltdev_k'', MOLTBOOK_AUDIENCE = None\<rparr>" unreachable
        "new_auth \<lparr>cfg_apiKey = Some ''moltdev_k'', cfg_audience = None,
                            cfg_verifyEndpoint = None, cfg_headerName = Some ''x-agent-token''\<rparr>"]
  by (simp add: new_auth_def str_or_def object_prototype_keys_def ts_missing_token_response_def)

text \<open>
  C3. As stated (status 500 for every request made while the credential is unset) the
  claim fails: the token check comes first, so a request that carries no token is
  answered 401 also when the credential is unset.
\<close>

theorem unset_credential_token_missing_401:
  "verifyMoltbookIdentity \<lparr>MOLTBOOK_APP_KEY = None, MOLTBOOK_AUDIENCE = None\<rparr> unreachable
      \<lparr>headers = [], moltbookAgent = JUndefined\<rparr>
     = Returns \<lparr>req = \<lparr>headers = [], moltbookAgent = JUndefined\<rparr>,
                sent = [\<lparr>status = JNum 401,
                         json_body = [(''error'', JStr ''Missing identity token''),
                                      (''hint'', JStr ''Include X-Moltbook-Identity header with your identity token'')]\<rparr>],
                next_calls = 0, fetched = []\<rparr>"
  by (simp add: verifyMoltbookIdentity_def js_lookup_def object_prototype_keys_def effect_defs)

text \<open>
  C3, amended. While the credential is unset or empty, no outbound call is made and
  \<open>next\<close> is not called; a request that carries a token gets status 500 with the
  configuration-error body, and a request without one gets the 401 of the token check.
\<close>

theorem unset_credential_500_after_token_check:
  "((MOLTBOOK_APP_KEY e = None \<or> MOLTBOOK_APP_KEY e = Some [])
     \<longrightarrow> verifyMoltbookIdentity e remote r =
           Returns \<lparr>req = r,
                    sent = [if truthy (js_lookup (headers r) ''x-moltbook-identity'')
                            then configuration_error_response else missing_token_response],
                    next_calls = 0, fetched = []\<rparr>)
   \<and> ((apiKey a = None \<or> apiKey a = Some [])
     \<longrightarrow> ts_verify a remote r =
           Returns \<lparr>req = r,
                    sent = [if truthy (js_lookup (headers r) (headerName a))
                            then configuration_error_response else ts_missing_token_response a],
                    next_calls = 0, fetched = []\<rparr>)"
proof (intro conjI impI)
  assume "MOLTBOOK_APP_KEY e = None \<or> MOLTBOOK_APP_KEY e = Some []"
  then have k: "\<not> truthy (env_value (MOLTBOOK_APP_KEY e))"
    by (auto simp: key_unset)
  show "verifyMoltbookIdentity e remote r =
           Returns \<lparr>req = r,
                    sent = [if truthy (js_lookup (headers r) ''x-moltbook-identity'')
                            then configuration_error_response else missing_token_response],
                    next_calls = 0, fetched = []\<rparr>"
    by (cases "truthy (js_lookup (headers r) ''x-moltbook-identity'')")
       (simp_all add: js_no_key k js_no_token)
next
  assume "apiKey a = None \<or> apiKey a = Some []"
  then have k: "\<not> truthy (env_value (apiKey a))"
    by (auto simp: key_unset)
  show "ts_verify a remote r =
           Returns \<lparr>req = r,
                    sent = [if truthy (js_lookup (headers r) (headerName a))
                            then configuration_error_response else ts_missing_token_response a],
                    next_calls = 0, fetched = []\<rparr>"
    by (cases "truthy (js_lookup (headers r) (headerName a))")
       (simp_all add: ts_no_key k ts_no_token)
qed

text \<open>The theorem at a request with a token, the credential unset (or empty).\<close>

theorem unset_credential_500_witness:
  "verifyMoltbookIdentity \<lparr>MOLTBOOK_APP_KEY = None, MOLTBOOK_AUDIENCE = None\<rparr>
      (answers (JObj [(''valid'', JBool True)]))
      \<lparr>headers = [(''x-moltbook-identity'', JStr ''tok123'')], moltbookAgent = JUndefined\<rparr>
     = Returns \<lparr>req = \<lparr>headers = [(''x-moltbook-identity'', JStr ''tok123'')],
                       moltbookAgent = JUndefined\<rparr>,
                sent = [configuration_error_response], next_calls = 0, fetched = []\<rparr>
   \<and> ts_verify (new_auth \<lparr>cfg_apiKey = Some [], cfg_audience = None,
                            cfg_verifyEndpoint = None, cfg_headerName = None\<rparr>)
      (answers (JObj [(''valid'', JBool True)]))
      \<lparr>headers = [(''x-moltbook-identity'', JStr ''tok123'')], moltbookAgent = JUndefined\<rparr>
     = Returns \<lparr>req = \<lparr>headers = [(''x-moltbook-identity'', JStr ''tok123'')],
                       moltbookAgent = JUndefined\<rparr>,
                sent = [configuration_error_response], next_calls = 0, fetched = []\<rparr>"
  using unset_credential_500_after_token_check
    [of "\<lparr>MOLTBOOK_APP_KEY = None, MOLTBOOK_AUDIENCE = None\<rparr>"
        "answers (JObj [(''valid'', JBool True)])"
        "\<lparr>headers = [(''x-moltbook-identity'', JStr ''tok123'')], moltbookAgent = JUndefined\<rparr>"
        "new_auth \<lparr>cfg_apiKey = Some [], cfg_audience = None,
                            cfg_verifyEndpoint = None, cfg_headerName = None\<rparr>"]
  by (simp add: new_auth_def str_or_def js_lookup_def)

section \<open>Outcomes of the outbound call\<close>



text \<open>
  C5. With a token and a credential, when \<open>fetch\<close> rejects (network error, or a
  timeout raised by the transport) or the body is not JSON, the middleware returns
  normally, having sent exactly one response, status 500 with the error
  \<open>Failed to verify identity\<close> and its generic hint; \<open>next\<close> is not called and the
  request is unchanged.
\<close>

theorem transport_failure_500:
  "(truthy (js_lookup (headers r) ''x-moltbook-identity'')
      \<and> truthy (env_value (MOLTBOOK_APP_KEY e))
      \<and> (remote (verify_call e (js_lookup (headers r) ''x-moltbook-identity'')) = Rejects NetworkError
           \<or> remote (verify_call e (js_lookup (headers r) ''x-moltbook-identity'')) = Rejects Timeout
           \<or> remote (verify_call e (js_lookup (headers r) ''x-moltbook-identity'')) = Resolves NotJson)
     \<longrightarrow> verifyMoltbookIdentity e remote r =
           Returns \<lparr>req = r, sent = [verification_failure_response], next_calls = 0,
                    fetched = [verify_call e (js_lookup (headers r) ''x-moltbook-identity'')]\<rparr>)
   \<and> (js_lookup (headers r) (headerName a) = JStr s \<and> s \<noteq> []
      \<and> truthy (env_value (apiKey a))
      \<and> (remote (ts_verify_call a (JStr s)) = Rejects NetworkError
           \<or> remote (ts_verify_call a (JStr s)) = Rejects Timeout
           \<or> remote (ts_verify_call a (JStr s)) = Resolves NotJson)
     \<longrightarrow> ts_verify a remote r =
           Returns \<lparr>req = r, sent = [verification_failure_response], next_calls = 0,
                    fetched = [ts_verify_call a (JStr s)]\<rparr>)"
proof (intro conjI impI)
  assume h: "truthy (js_lookup (headers r) ''x-moltbook-identity'')
      \<and> truthy (env_value (MOLTBOOK_APP_KEY e))
      \<and> (remote (verify_call e (js_lookup (headers r) ''x-moltbook-identity'')) = Rejects NetworkError
           \<or> remote (verify_call e (js_lookup (headers r) ''x-moltbook-identity'')) = Rejects Timeout
           \<or> remote (verify_call e (js_lookup (headers r) ''x-moltbook-identity'')) = Resolves NotJson)"
  then consider f where
      "remote (verify_call e (js_lookup (headers r) ''x-moltbook-identity'')) = Rejects f"
    | "remote (verify_call e (js_lookup (headers r) ''x-moltbook-identity'')) = Resolves NotJson"
    by blast
  then show "verifyMoltbookIdentity e remote r =
           Returns \<lparr>req = r, sent = [verification_failure_response], next_calls = 0,
                    fetched = [verify_call e (js_lookup (headers r) ''x-moltbook-identity'')]\<rparr>"
    using h by cases (simp_all add: js_transport_failure)
next
  assume h: "js_lookup (headers r) (headerName a) = JStr s \<and> s \<noteq> []
      \<and> truthy (env_value (apiKey a))
      \<and> (remote (ts_verify_call a (JStr s)) = Rejects NetworkError
           \<or> remote (ts_verify_call a (JStr s)) = Rejects Timeout
           \<or> remote (ts_verify_call a (JStr s)) = Resolves NotJson)"
  then consider f where "remote (ts_verify_call a (JStr s)) = Rejects f"
    | "remote (ts_verify_call a (JStr s)) = Resolves NotJson"
    by blast
  then show "ts_verify a remote r =
           Returns \<lparr>req = r, sent = [verification_failure_response], next_calls = 0,
                    fetched = [ts_verify_call a (JStr s)]\<rparr>"
    using h by cases (simp_all add: ts_transport_failure)
qed

text \<open>The theorem at a remote that times out, and at one that answers with a body
  that is not JSON.\<close>

theorem transport_failure_500_witness:
  "verifyMoltbookIdentity \<lparr>MOLTBOOK_APP_KEY = Some ''moltdev_k'', MOLTBOOK_AUDIENCE = None\<rparr>
      times_out
      \<lparr>headers = [(''x-moltbook-identity'', JStr ''tok123'')], moltbookAgent = JUndefined\<rparr>
     = Returns \<lparr>req = \<lparr>headers = [(''x-moltbook-identity'', JStr ''tok123'')],
                       moltbookAgent = JUndefined\<rparr>,
                sent = [verification_failure_response], next_calls = 0,
                fetched = [verify_call \<lparr>MOLTBOOK_APP_KEY = Some ''moltdev_k'',
                                         MOLTBOOK_AUDIENCE = None\<rparr> (JStr ''tok123'')]\<rparr>
   \<and> ts_verify (new_auth \<lparr>cfg_apiKey = Some ''moltdev_k'', cfg_audience = None,
                            cfg_verifyEndpoint = None, cfg_headerName = None\<rparr>)
      answers_garbage
      \<lparr>headers = [(''x-moltbook-identity'', JStr ''tok123'')], moltbookAgent = JUndefined\<rparr>
     = Returns \<lparr>req = \<lparr>headers = [(''x-moltbook-identity'', JStr ''tok123'')],
                       moltbookAgent = JUndefined\<rparr>,
                sent = [verification_failure_response], next_calls = 0,
                fetched = [ts_verify_call
                             (new_auth \<lparr>cfg_apiKey = Some ''moltdev_k'', cfg_audience = None,
                                        cfg_verifyEndpoint = None, cfg_headerName = None\<rparr>)
                             (JStr ''tok123'')]\<rparr>"
  using transport_failure_500
    [where r = "\<lparr>headers = [(''x-moltbook-identity'', JStr ''tok123'')], moltbookAgent = JUndefined\<rparr>"
       and e = "\<lparr>MOLTBOOK_APP_KEY = Some ''moltdev_k'', MOLTBOOK_AUDIENCE = None\<rparr>"
       and remote = times_out
       and a = "new_auth \<lparr>cfg_apiKey = Some ''moltdev_k'', cfg_audience = None,
                            cfg_verifyEndpoint = None, cfg_headerName = None\<rparr>"
       and s = "''tok123''"]
   transport_failure_500
    [where r = "\<lparr>headers = [(''x-moltbook-identity'', JStr ''tok123'')], moltbookAgent = JUndefined\<rparr>"
       and e = "\<lparr>MOLTBOOK_APP_KEY = Some ''moltdev_k'', MOLTBOOK_AUDIENCE = None\<rparr>"
       and remote = answers_garbage
       and a = "new_auth \<lparr>cfg_apiKey = Some ''moltdev_k'', cfg_audience = None,
                            cfg_verifyEndpoint = None, cfg_headerName = None\<rparr>"
       and s = "''tok123''"]
  by (simp add: js_lookup_def times_out_def answers_garbage_def env_value_def new_auth_def str_or_def)

text \<open>
  A body that is JSON but has neither documented shape is not a failure of the call for
  the code: the empty object is handled as a rejection without a code (401, generic
  hint), and \<open>null\<close> ends in the 500 response because reading \<open>data.valid\<close> raises.
\<close>

lemma wrong_shape_body_is_a_rejection:
  "verifyMoltbookIdentity \<lparr>MOLTBOOK_APP_KEY = Some ''moltdev_k'', MOLTBOOK_AUDIENCE = None\<rparr>
      (answers (JObj []))
      \<lparr>headers = [(''x-moltbook-identity'', JStr ''tok123'')], moltbookAgent = JUndefined\<rparr>
     = Returns \<lparr>req = \<lparr>headers = [(''x-moltbook-identity'', JStr ''tok123'')],
                       moltbookAgent = JUndefined\<rparr>,
                sent = [\<lparr>status = JNum 401,
                         json_body = [(''error'', JUndefined),
                                      (''hint'', JStr ''Identity verification failed.'')]\<rparr>],
                next_calls = 0,
                fetched = [verify_call \<lparr>MOLTBOOK_APP_KEY = Some ''moltdev_k'',
                                         MOLTBOOK_AUDIENCE = None\<rparr> (JStr ''tok123'')]\<rparr>"
  by (simp add: verifyMoltbookIdentity_def verify_try_def answers_def env_value_def
      js_lookup_def object_prototype_keys_def status_absent_error hint_absent_error
      effect_defs Let_def)

lemma null_body_is_a_failure:
  "verifyMoltbookIdentity \<lparr>MOLTBOOK_APP_KEY = Some ''moltdev_k'', MOLTBOOK_AUDIENCE = None\<rparr>
      (answers JNull)
      \<lparr>headers = [(''x-moltbook-identity'', JStr ''tok123'')], moltbookAgent = JUndefined\<rparr>
     = Returns \<lparr>req = \<lparr>headers = [(''x-moltbook-identity'', JStr ''tok123'')],
                       moltbookAgent = JUndefined\<rparr>,
                sent = [verification_failure_response], next_calls = 0,
                fetched = [verify_call \<lparr>MOLTBOOK_APP_KEY = Some ''moltdev_k'',
                                         MOLTBOOK_AUDIENCE = None\<rparr> (JStr ''tok123'')]\<rparr>"
  by (simp add: verifyMoltbookIdentity_def verify_try_def answers_def env_value_def
      js_lookup_def verification_failure_response_def effect_defs Let_def)

section \<open>The two entry points compared\<close>

text \<open>
  C6. As stated the claim fails for the standalone form: it returns whatever JSON value
  the remote sent, so a remote that answers \<open>null\<close> (or \<open>{}\<close>) makes
  \<open>verifyIdentityToken\<close> resolve to \<open>null\<close> (or to the empty object), silently.
\<close>

theorem standalone_returns_null_body:
  "verifyIdentityToken \<lparr>MOLTBOOK_APP_KEY = Some ''moltdev_k'', MOLTBOOK_AUDIENCE = None\<rparr>
      (answers JNull) (JStr ''tok123'')
     = (Returns JNull,
        [verify_call \<lparr>MOLTBOOK_APP_KEY = Some ''moltdev_k'', MOLTBOOK_AUDIENCE = None\<rparr>
           (JStr ''tok123'')])
   \<and> verifyIdentityToken \<lparr>MOLTBOOK_APP_KEY = Some ''moltdev_k'', MOLTBOOK_AUDIENCE = None\<rparr>
      (answers (JObj [])) (JStr ''tok123'')
     = (Returns (JObj []),
        [verify_call \<lparr>MOLTBOOK_APP_KEY = Some ''moltdev_k'', MOLTBOOK_AUDIENCE = None\<rparr>
           (JStr ''tok123'')])"
  by (simp add: verifyIdentityToken_def answers_def env_value_def Let_def)

text \<open>
  C6, amended. The request-interception form never raises: every run returns normally
  having either sent exactly one response or called \<open>next\<close> exactly once. The
  standalone form signals a missing credential and a transport failure by raising
  (without an outbound call in the first case), and otherwise returns the remote's
  parsed body as it is, whatever it is. The same holds for the class.
\<close>

theorem failure_signals_of_both_entry_points:
  "(\<exists>st. verifyMoltbookIdentity e remote r = Returns st \<and> length (sent st) + next_calls st = 1)
   \<and> (\<not> truthy (env_value (MOLTBOOK_APP_KEY e)) \<longrightarrow>
        verifyIdentityToken e remote t =
          (Throws (Error ''MOLTBOOK_APP_KEY environment variable is not set''), []))
   \<and> (truthy (env_value (MOLTBOOK_APP_KEY e)) \<longrightarrow>
        verifyIdentityToken e remote t =
          (case remote (verify_call e t) of
             Rejects f \<Rightarrow> Throws (FetchFailed f)
           | Resolves NotJson \<Rightarrow> Throws SyntaxError
           | Resolves (Json data) \<Rightarrow> Returns data,
           [verify_call e t]))
   \<and> (\<exists>st. ts_verify a remote r = Returns st \<and> length (sent st) + next_calls st = 1)
   \<and> (\<not> truthy (env_value (apiKey a)) \<longrightarrow>
        ts_verifyToken a remote t =
          (Throws (Error ''MOLTBOOK_APP_KEY environment variable is not set''), []))
   \<and> (truthy (env_value (apiKey a)) \<longrightarrow>
        ts_verifyToken a remote t =
          (case remote (ts_verify_call a t) of
             Rejects f \<Rightarrow> Throws (FetchFailed f)
           | Resolves NotJson \<Rightarrow> Throws SyntaxError
           | Resolves (Json data) \<Rightarrow> Returns data,
           [ts_verify_call a t]))"
  using js_run [of e remote r] standalone_no_key [of e remote t] standalone_with_key [of e remote t]
    ts_run [of a remote r] ts_standalone_no_key [of a remote t] ts_standalone_with_key [of a remote t]
  by blast

text \<open>The theorem at a remote that times out, with and without the credential.\<close>

theorem failure_signals_witness:
  "(\<exists>st. verifyMoltbookIdentity \<lparr>MOLTBOOK_APP_KEY = Some ''moltdev_k'', MOLTBOOK_AUDIENCE = None\<rparr>
           times_out
           \<lparr>headers = [(''x-moltbook-identity'', JStr ''tok123'')], moltbookAgent = JUndefined\<rparr>
         = Returns st \<and> length (sent st) + next_calls st = 1)
   \<and> verifyIdentityToken \<lparr>MOLTBOOK_APP_KEY = Some ''moltdev_k'', MOLTBOOK_AUDIENCE = None\<rparr>
        times_out (JStr ''tok123'')
     = (Throws (FetchFailed Timeout),
        [verify_call \<lparr>MOLTBOOK_APP_KEY = Some ''moltdev_k'', MOLTBOOK_AUDIENCE = None\<rparr>
           (JStr ''tok123'')])
   \<and> verifyIdentityToken \<lparr>MOLTBOOK_APP_KEY = None, MOLTBOOK_AUDIENCE = None\<rparr>
        times_out (JStr ''tok123'')
     = (Throws (Error ''MOLTBOOK_APP_KEY environment variable is not set''), [])"
  using failure_signals_of_both_entry_points
    [of "\<lparr>MOLTBOOK_APP_KEY = Some ''moltdev_k'', MOLTBOOK_AUDIENCE = None\<rparr>" times_out
        "\<lparr>headers = [(''x-moltbook-identity'', JStr ''tok123'')], moltbookAgent = JUndefined\<rparr>"
        "JStr ''tok123''" a]
    failure_signals_of_both_entry_points
    [of "\<lparr>MOLTBOOK_APP_KEY = None, MOLTBOOK_AUDIENCE = None\<rparr>" times_out
        "\<lparr>headers = [(''x-moltbook-identity'', JStr ''tok123'')], moltbookAgent = JUndefined\<rparr>"
        "JStr ''tok123''" a]
  by (simp add: env_value_def times_out_def)

text \<open>
  C7. As stated the claim fails: only the request-interception form consults the table.
  For the remote answer documented for an expired token, the middleware's response
  carries the table's hint, while the standalone form returns the remote's body with the
  remote's own hint and no status; and where the remote cannot be reached the middleware
  answers 500 while the standalone form raises.
\<close>

theorem entry_points_classify_differently:
  "request_classification
     (verifyMoltbookIdentity \<lparr>MOLTBOOK_APP_KEY = Some ''moltdev_k'', MOLTBOOK_AUDIENCE = None\<rparr>
        (answers expired_body)
        \<lparr>headers = [(''x-moltbook-identity'', JStr ''tok123'')], moltbookAgent = JUndefined\<rparr>)
     = Rejected (JStr ''identity_token_expired'')
         (JStr ''Your identity token has expired. Request a new token from Moltbook and try again.'')
   \<and> result_classification
     (fst (verifyIdentityToken \<lparr>MOLTBOOK_APP_KEY = Some ''moltdev_k'', MOLTBOOK_AUDIENCE = None\<rparr>
        (answers expired_body) (JStr ''tok123'')))
     = Rejected (JStr ''identity_token_expired'') (JStr ''Token expired. Request a new token.'')
   \<and> request_classification
     (verifyMoltbookIdentity \<lparr>MOLTBOOK_APP_KEY = Some ''moltdev_k'', MOLTBOOK_AUDIENCE = None\<rparr>
        unreachable
        \<lparr>headers = [(''x-moltbook-identity'', JStr ''tok123'')], moltbookAgent = JUndefined\<rparr>)
     = Rejected (JStr ''Failed to verify identity'')
         (JStr ''An error occurred while verifying your identity. Please try again.'')
   \<and> fst (verifyIdentityToken \<lparr>MOLTBOOK_APP_KEY = Some ''moltdev_k'', MOLTBOOK_AUDIENCE = None\<rparr>
        unreachable (JStr ''tok123''))
     = Throws (FetchFailed NetworkError)
   \<and> request_classification
     (verifyMoltbookIdentity \<lparr>MOLTBOOK_APP_KEY = Some ''moltdev_k'', MOLTBOOK_AUDIENCE = None\<rparr>
        (answers expired_body)
        \<lparr>headers = [(''x-moltbook-identity'', JStr ''tok123'')], moltbookAgent = JUndefined\<rparr>)
     \<noteq> result_classification
     (fst (verifyIdentityToken \<lparr>MOLTBOOK_APP_KEY = Some ''moltdev_k'', MOLTBOOK_AUDIENCE = None\<rparr>
        (answers expired_body) (JStr ''tok123'')))"
  by (simp add: request_classification_def result_classification_def expired_body_def
      expired_hint status_table
      verifyMoltbookIdentity_def verify_try_def verifyIdentityToken_def answers_def
      unreachable_def env_value_def js_lookup_def effect_defs Let_def)

text \<open>
  C7, amended. For a request with a token and a credential, to which the remote answers
  a JSON object, both entry points issue the same single outbound call, and the
  middleware's outcome is the table applied to what the standalone form returns: the
  standalone form returns the body unchanged; on a rejection (\<open>valid\<close> falsy) the
  middleware responds with the status and hint that \<open>getStatusCodeForError\<close> and
  \<open>getErrorHint\<close> give for the body's \<open>error\<close>, and both results carry the same
  error code, the standalone one with the remote's own hint; on a verification
  (\<open>valid\<close> truthy, the log line printable) both yield the same agent.
\<close>

theorem request_form_applies_table_to_standalone_result:
  "truthy (js_lookup (headers r) ''x-moltbook-identity'')
     \<and> truthy (env_value (MOLTBOOK_APP_KEY e))
     \<and> remote (verify_call e (js_lookup (headers r) ''x-moltbook-identity'')) = Resolves (Json (JObj d))
   \<longrightarrow>
     verifyIdentityToken e remote (js_lookup (headers r) ''x-moltbook-identity'')
       = (Returns (JObj d), [verify_call e (js_lookup (headers r) ''x-moltbook-identity'')])
     \<and> (\<exists>st. verifyMoltbookIdentity e remote r = Returns st
            \<and> fetched st = [verify_call e (js_lookup (headers r) ''x-moltbook-identity'')])
     \<and> (\<not> truthy (js_lookup d ''valid'')
           \<and> getStatusCodeForError (js_lookup d ''error'') = Inr code
           \<and> getErrorHint (js_lookup d ''error'') = Inr hint \<longrightarrow>
           verifyMoltbookIdentity e remote r
             = Returns \<lparr>req = r,
                        sent = [\<lparr>status = code,
                                 json_body = [(''error'', js_lookup d ''error''), (''hint'', hint)]\<rparr>],
                        next_calls = 0,
                        fetched = [verify_call e (js_lookup (headers r) ''x-moltbook-identity'')]\<rparr>
           \<and> request_classification (verifyMoltbookIdentity e remote r)
             = Rejected (js_lookup d ''error'') hint
           \<and> result_classification
               (fst (verifyIdentityToken e remote (js_lookup (headers r) ''x-moltbook-identity'')))
             = Rejected (js_lookup d ''error'') (js_lookup d ''hint''))
     \<and> (truthy (js_lookup d ''valid'')
           \<and> verified_log_line (js_lookup d ''agent'') = Inr line \<longrightarrow>
           request_classification (verifyMoltbookIdentity e remote r)
             = Verified (js_lookup d ''agent'')
           \<and> result_classification
               (fst (verifyIdentityToken e remote (js_lookup (headers r) ''x-moltbook-identity'')))
             = Verified (js_lookup d ''agent''))"
proof (intro impI)
  let ?t = "js_lookup (headers r) ''x-moltbook-identity''"
  assume h: "truthy ?t \<and> truthy (env_value (MOLTBOOK_APP_KEY e))
     \<and> remote (verify_call e ?t) = Resolves (Json (JObj d))"
  then have tok: "truthy ?t" and key: "truthy (env_value (MOLTBOOK_APP_KEY e))"
    and rem: "remote (verify_call e ?t) = Resolves (Json (JObj d))"
    by simp_all
  have sa: "verifyIdentityToken e remote ?t = (Returns (JObj d), [verify_call e ?t])"
    by (simp add: standalone_with_key [OF key] rem)
  have rej: "verifyMoltbookIdentity e remote r =
           Returns \<lparr>req = r,
                    sent = [\<lparr>status = code,
                             json_body = [(''error'', js_lookup d ''error''), (''hint'', hint)]\<rparr>],
                    next_calls = 0, fetched = [verify_call e ?t]\<rparr>"
    if "\<not> truthy (js_lookup d ''valid'')
          \<and> getStatusCodeForError (js_lookup d ''error'') = Inr code
          \<and> getErrorHint (js_lookup d ''error'') = Inr hint"
    using rem that
    by (intro js_rejected [where data = "JObj d" and v = "js_lookup d ''valid''"] tok key) simp_all
  have ver: "verifyMoltbookIdentity e remote r =
           Returns \<lparr>req = r\<lparr>moltbookAgent := js_lookup d ''agent''\<rparr>, sent = [], next_calls = 1,
                    fetched = [verify_call e ?t]\<rparr>"
    if "truthy (js_lookup d ''valid'') \<and> verified_log_line (js_lookup d ''agent'') = Inr line"
    using rem that
    by (intro js_verified [where data = "JObj d" and v = "js_lookup d ''valid''" and line = line]
          tok key) simp_all
  have calls: "\<exists>st. verifyMoltbookIdentity e remote r = Returns st
            \<and> fetched st = [verify_call e ?t]"
    by (rule js_reaches_call [OF tok key])
  have c_rej: "request_classification (verifyMoltbookIdentity e remote r)
             = Rejected (js_lookup d ''error'') hint
           \<and> result_classification (fst (verifyIdentityToken e remote ?t))
             = Rejected (js_lookup d ''error'') (js_lookup d ''hint'')"
    if "\<not> truthy (js_lookup d ''valid'')
          \<and> getStatusCodeForError (js_lookup d ''error'') = Inr code
          \<and> getErrorHint (js_lookup d ''error'') = Inr hint"
    using that by (simp add: rej classify_rejected_run sa classify_result_object)
  have c_ver: "request_classification (verifyMoltbookIdentity e remote r)
             = Verified (js_lookup d ''agent'')
           \<and> result_classification (fst (verifyIdentityToken e remote ?t))
             = Verified (js_lookup d ''agent'')"
    if "truthy (js_lookup d ''valid'') \<and> verified_log_line (js_lookup d ''agent'') = Inr line"
    using that by (simp add: ver classify_verified_run sa classify_result_object)
  from sa calls rej c_rej c_ver
  show "verifyIdentityToken e remote ?t = (Returns (JObj d), [verify_call e ?t])
     \<and> (\<exists>st. verifyMoltbookIdentity e remote r = Returns st
            \<and> fetched st = [verify_call e ?t])
     \<and> (\<not> truthy (js_lookup d ''valid'')
           \<and> getStatusCodeForError (js_lookup d ''error'') = Inr code
           \<and> getErrorHint (js_lookup d ''error'') = Inr hint \<longrightarrow>
           verifyMoltbookIdentity e remote r
             = Returns \<lparr>req = r,
                        sent = [\<lparr>status = code,
                                 json_body = [(''error'', js_lookup d ''error''), (''hint'', hint)]\<rparr>],
                        next_calls = 0, fetched = [verify_call e ?t]\<rparr>
           \<and> request_classification (verifyMoltbookIdentity e remote r)
             = Rejected (js_lookup d ''error'') hint
           \<and> result_classification (fst (verifyIdentityToken e remote ?t))
             = Rejected (js_lookup d ''error'') (js_lookup d ''hint''))
     \<and> (truthy (js_lookup d ''valid'')
           \<and> verified_log_line (js_lookup d ''agent'') = Inr line \<longrightarrow>
           request_classification (verifyMoltbookIdentity e remote r)
             = Verified (js_lookup d ''agent'')
           \<and> result_classification (fst (verifyIdentityToken e remote ?t))
             = Verified (js_lookup d ''agent''))"
    by (intro conjI impI) blast+
qed

text \<open>The theorem at a remote that answers \<open>rate_limit_exceeded\<close>: status 429.\<close>

theorem request_form_applies_table_witness:
  "verifyIdentityToken \<lparr>MOLTBOOK_APP_KEY = Some ''moltdev_k'', MOLTBOOK_AUDIENCE = None\<rparr>
      (answers rate_limited_body) (JStr ''tok123'')
     = (Returns rate_limited_body,
        [verify_call \<lparr>MOLTBOOK_APP_KEY = Some ''moltdev_k'', MOLTBOOK_AUDIENCE = None\<rparr>
           (JStr ''tok123'')])
   \<and> verifyMoltbookIdentity
        \<lparr>MOLTBOOK_APP_KEY = Some ''moltdev_k'', MOLTBOOK_AUDIENCE = None\<rparr>
        (answers rate_limited_body)
        \<lparr>headers = [(''x-moltbook-identity'', JStr ''tok123'')], moltbookAgent = JUndefined\<rparr>
     = Returns
        \<lparr>req = \<lparr>headers = [(''x-moltbook-identity'', JStr ''tok123'')], moltbookAgent = JUndefined\<rparr>,
         sent = [\<lparr>status = JNum 429,
                  json_body = [(''error'', JStr ''rate_limit_exceeded''),
                               (''hint'', JStr ''Too many verification requests. Please wait and try again.'')]\<rparr>],
         next_calls = 0,
         fetched = [verify_call \<lparr>MOLTBOOK_APP_KEY = Some ''moltdev_k'', MOLTBOOK_AUDIENCE = None\<rparr>
                      (JStr ''tok123'')]\<rparr>
   \<and> result_classification
       (fst (verifyIdentityToken \<lparr>MOLTBOOK_APP_KEY = Some ''moltdev_k'', MOLTBOOK_AUDIENCE = None\<rparr>
               (answers rate_limited_body) (JStr ''tok123'')))
     = Rejected (JStr ''rate_limit_exceeded'') JUndefined"
  using request_form_applies_table_to_standalone_result
    [where r = "\<lparr>headers = [(''x-moltbook-identity'', JStr ''tok123'')], moltbookAgent = JUndefined\<rparr>"
       and e = "\<lparr>MOLTBOOK_APP_KEY = Some ''moltdev_k'', MOLTBOOK_AUDIENCE = None\<rparr>"
       and remote = "answers rate_limited_body"
       and d = "[(''valid'', JBool False), (''error'', JStr ''rate_limit_exceeded'')]"
       and code = "JNum 429"
       and hint = "JStr ''Too many verification requests. Please wait and try again.''"]
  by (auto simp: js_lookup_def answers_def env_value_def rate_limited_body_def status_table
      rate_limit_hint object_prototype_keys_def)

section \<open>The outbound payload\<close>

text \<open>
  C8. Every outbound call that either entry point issues carries an \<open>audience\<close>
  member in its body: the configured audience string, or \<open>default\<close> when the
  audience is unset (or empty). A request with a token, made while the credential is
  configured, does issue such a call.
\<close>

theorem audience_in_every_outbound_body:
  "(verifyMoltbookIdentity e remote r = Returns st \<and> c \<in> set (fetched st) \<longrightarrow>
      map_of (out_body c) ''audience'' =
        Some (JStr (case MOLTBOOK_AUDIENCE e of
                      None \<Rightarrow> ''default''
                    | Some x \<Rightarrow> if x = [] then ''default'' else x)))
   \<and> (c \<in> set (snd (verifyIdentityToken e remote t)) \<longrightarrow>
      map_of (out_body c) ''audience'' =
        Some (JStr (case MOLTBOOK_AUDIENCE e of
                      None \<Rightarrow> ''default''
                    | Some x \<Rightarrow> if x = [] then ''default'' else x)))
   \<and> (ts_verify (new_auth config) remote r = Returns st \<and> c \<in> set (fetched st) \<longrightarrow>
      map_of (out_body c) ''audience'' =
        Some (JStr (case cfg_audience config of
                      None \<Rightarrow> ''default''
                    | Some x \<Rightarrow> if x = [] then ''default'' else x)))
   \<and> (c \<in> set (snd (ts_verifyToken (new_auth config) remote t)) \<longrightarrow>
      map_of (out_body c) ''audience'' =
        Some (JStr (case cfg_audience config of
                      None \<Rightarrow> ''default''
                    | Some x \<Rightarrow> if x = [] then ''default'' else x)))
   \<and> (truthy (js_lookup (headers r) ''x-moltbook-identity'')
        \<and> truthy (env_value (MOLTBOOK_APP_KEY e)) \<longrightarrow>
      (\<exists>st'. verifyMoltbookIdentity e remote r = Returns st'
          \<and> fetched st' = [verify_call e (js_lookup (headers r) ''x-moltbook-identity'')]))"
proof (intro conjI impI)
  assume "verifyMoltbookIdentity e remote r = Returns st \<and> c \<in> set (fetched st)"
  with js_run [of e remote r]
  have "c = verify_call e (js_lookup (headers r) ''x-moltbook-identity'')" by auto
  then show "map_of (out_body c) ''audience'' =
        Some (JStr (case MOLTBOOK_AUDIENCE e of
                      None \<Rightarrow> ''default''
                    | Some x \<Rightarrow> if x = [] then ''default'' else x))"
    by (simp only: audience_of_call)
next
  assume "c \<in> set (snd (verifyIdentityToken e remote t))"
  with standalone_calls [of e remote t] have "c = verify_call e t" by auto
  then show "map_of (out_body c) ''audience'' =
        Some (JStr (case MOLTBOOK_AUDIENCE e of
                      None \<Rightarrow> ''default''
                    | Some x \<Rightarrow> if x = [] then ''default'' else x))"
    by (simp only: audience_of_call)
next
  assume "ts_verify (new_auth config) remote r = Returns st \<and> c \<in> set (fetched st)"
  with ts_run [of "new_auth config" remote r]
  have "\<exists>tok. c = ts_verify_call (new_auth config) tok" by fastforce
  then obtain tok where "c = ts_verify_call (new_auth config) tok" ..
  then show "map_of (out_body c) ''audience'' =
        Some (JStr (case cfg_audience config of
                      None \<Rightarrow> ''default''
                    | Some x \<Rightarrow> if x = [] then ''default'' else x))"
    by (simp only: ts_audience_of_call)
next
  assume "c \<in> set (snd (ts_verifyToken (new_auth config) remote t))"
  with ts_standalone_calls [of "new_auth config" remote t]
  have "c = ts_verify_call (new_auth config) t" by auto
  then show "map_of (out_body c) ''audience'' =
        Some (JStr (case cfg_audience config of
                      None \<Rightarrow> ''default''
                    | Some x \<Rightarrow> if x = [] then ''default'' else x))"
    by (simp only: ts_audience_of_call)
next
  assume "truthy (js_lookup (headers r) ''x-moltbook-identity'')
        \<and> truthy (env_value (MOLTBOOK_APP_KEY e))"
  then show "\<exists>st'. verifyMoltbookIdentity e remote r = Returns st'
          \<and> fetched st' = [verify_call e (js_lookup (headers r) ''x-moltbook-identity'')]"
    by (simp add: js_reaches_call)
qed

text \<open>The theorem at a configured audience and at an unset one.\<close>

theorem audience_in_every_outbound_body_witness:
  "verifyIdentityToken \<lparr>MOLTBOOK_APP_KEY = Some ''moltdev_k'', MOLTBOOK_AUDIENCE = Some ''my-service.example''\<rparr>
      (answers rate_limited_body) (JStr ''tok123'')
     = (Returns rate_limited_body,
        [verify_call \<lparr>MOLTBOOK_APP_KEY = Some ''moltdev_k'',
                       MOLTBOOK_AUDIENCE = Some ''my-service.example''\<rparr> (JStr ''tok123'')])
   \<and> map_of (out_body (verify_call \<lparr>MOLTBOOK_APP_KEY = Some ''moltdev_k'',
                       MOLTBOOK_AUDIENCE = Some ''my-service.example''\<rparr> (JStr ''tok123'')))
        ''audience'' = Some (JStr ''my-service.example'')
   \<and> (\<exists>st. verifyMoltbookIdentity
               \<lparr>MOLTBOOK_APP_KEY = Some ''moltdev_k'', MOLTBOOK_AUDIENCE = None\<rparr>
               (answers rate_limited_body)
               \<lparr>headers = [(''x-moltbook-identity'', JStr ''tok123'')], moltbookAgent = JUndefined\<rparr>
             = Returns st
          \<and> fetched st = [verify_call \<lparr>MOLTBOOK_APP_KEY = Some ''moltdev_k'',
                                          MOLTBOOK_AUDIENCE = None\<rparr> (JStr ''tok123'')])
   \<and> map_of (out_body (verify_call \<lparr>MOLTBOOK_APP_KEY = Some ''moltdev_k'',
                       MOLTBOOK_AUDIENCE = None\<rparr> (JStr ''tok123'')))
        ''audience'' = Some (JStr ''default'')"
proof -
  let ?e = "\<lparr>MOLTBOOK_APP_KEY = Some ''moltdev_k'', MOLTBOOK_AUDIENCE = Some ''my-service.example''\<rparr>"
  let ?e' = "\<lparr>MOLTBOOK_APP_KEY = Some ''moltdev_k'', MOLTBOOK_AUDIENCE = None\<rparr>"
  let ?r = "\<lparr>headers = [(''x-moltbook-identity'', JStr ''tok123'')], moltbookAgent = JUndefined\<rparr>"
  have sa: "verifyIdentityToken ?e (answers rate_limited_body) (JStr ''tok123'')
              = (Returns rate_limited_body, [verify_call ?e (JStr ''tok123'')])"
    by (simp add: standalone_with_key env_value_def answers_def)
  have sa': "verifyIdentityToken ?e' (answers rate_limited_body) (JStr ''tok123'')
              = (Returns rate_limited_body, [verify_call ?e' (JStr ''tok123'')])"
    by (simp add: standalone_with_key env_value_def answers_def)
  from audience_in_every_outbound_body
    [where e = ?e and remote = "answers rate_limited_body" and t = "JStr ''tok123''"
       and c = "verify_call ?e (JStr ''tok123'')"] sa
  have a1: "map_of (out_body (verify_call ?e (JStr ''tok123''))) ''audience''
              = Some (JStr ''my-service.example'')"
    by simp
  from audience_in_every_outbound_body
    [where e = ?e' and remote = "answers rate_limited_body" and t = "JStr ''tok123''"
       and c = "verify_call ?e' (JStr ''tok123'')" and r = ?r] sa'
  have a2: "map_of (out_body (verify_call ?e' (JStr ''tok123''))) ''audience''
              = Some (JStr ''default'')"
    and a3: "\<exists>st. verifyMoltbookIdentity ?e' (answers rate_limited_body) ?r = Returns st
          \<and> fetched st = [verify_call ?e' (JStr ''tok123'')]"
    by (simp_all add: js_lookup_def env_value_def)
  from sa a1 a2 a3 show ?thesis by blast
qed

section \<open>Reading the token\<close>

text \<open>
  C9. As stated the claim fails: the header object is read at exactly the configured
  name, with no case folding. A verifier configured with the header name
  \<open>X-Moltbook-Identity\<close> finds no token in a header object that holds it under
  \<open>x-moltbook-identity\<close>, and finds it under \<open>X-Moltbook-Identity\<close>; the default
  middleware, which reads \<open>x-moltbook-identity\<close>, finds no token under
  \<open>X-Moltbook-Identity\<close>.
\<close>

theorem header_lookup_is_case_sensitive:
  "ts_verify (new_auth \<lparr>cfg_apiKey = Some ''moltdev_k'', cfg_audience = None,
                        cfg_verifyEndpoint = None, cfg_headerName = Some ''X-Moltbook-Identity''\<rparr>)
      (answers bot_body)
      \<lparr>headers = [(''x-moltbook-identity'', JStr ''tok123'')], moltbookAgent = JUndefined\<rparr>
     = Returns \<lparr>req = \<lparr>headers = [(''x-moltbook-identity'', JStr ''tok123'')],
                       moltbookAgent = JUndefined\<rparr>,
                sent = [\<lparr>status = JNum 401,
                         json_body = [(''error'', JStr ''Missing identity token''),
                                      (''hint'', JStr ''Include X-Moltbook-Identity header with your identity token'')]\<rparr>],
                next_calls = 0, fetched = []\<rparr>
   \<and> ts_verify (new_auth \<lparr>cfg_apiKey = Some ''moltdev_k'', cfg_audience = None,
                        cfg_verifyEndpoint = None, cfg_headerName = Some ''X-Moltbook-Identity''\<rparr>)
      (answers bot_body)
      \<lparr>headers = [(''X-Moltbook-Identity'', JStr ''tok123'')], moltbookAgent = JUndefined\<rparr>
     = Returns \<lparr>req = \<lparr>headers = [(''X-Moltbook-Identity'', JStr ''tok123'')],
                       moltbookAgent = JObj [(''id'', JStr ''u1''), (''name'', JStr ''Bot''),
                                             (''karma'', JNum 420)]\<rparr>,
                sent = [], next_calls = 1,
                fetched = [\<lparr>url = ''https://moltbook.com/api/v1/agents/verify-identity'',
                            http_method = ''POST'',
                            out_headers = [(''Content-Type'', JStr ''application/json''),
                                           (''X-Moltbook-App-Key'', JStr ''moltdev_k'')],
                            out_body = [(''token'', JStr ''tok123''),
                                        (''audience'', JStr ''default'')]\<rparr>]\<rparr>
   \<and> verifyMoltbookIdentity \<lparr>MOLTBOOK_APP_KEY = Some ''moltdev_k'', MOLTBOOK_AUDIENCE = None\<rparr>
      (answers bot_body)
      \<lparr>headers = [(''X-Moltbook-Identity'', JStr ''tok123'')], moltbookAgent = JUndefined\<rparr>
     = Returns \<lparr>req = \<lparr>headers = [(''X-Moltbook-Identity'', JStr ''tok123'')],
                       moltbookAgent = JUndefined\<rparr>,
                sent = [\<lparr>status = JNum 401,
                         json_body = [(''error'', JStr ''Missing identity token''),
                                      (''hint'', JStr ''Include X-Moltbook-Identity header with your identity token'')]\<rparr>],
                next_calls = 0, fetched = []\<rparr>"
  by (simp add: ts_verify_def ts_verify_try_def ts_verify_call_def verifyMoltbookIdentity_def
      ts_verified_log_line_def karma_420
      new_auth_def str_or_def answers_def bot_body_def js_lookup_def object_prototype_keys_def
      env_value_def json_stringify_def effect_defs Let_def)

text \<open>
  C9, amended. The token is the value stored in the request's header object under
  exactly the configured name (\<open>x-moltbook-identity\<close> for \<open>verifyMoltbookIdentity\<close>):
  an entry under any other name, in particular one that differs only in letter case,
  changes nothing but the request itself, and a non-empty string stored under the exact
  name is the token forwarded to the remote.
\<close>

theorem header_read_is_exact_match:
  "(k \<noteq> ''x-moltbook-identity'' \<longrightarrow>
      verifyMoltbookIdentity e remote (r\<lparr>headers := (k, v) # headers r\<rparr>) =
        (case verifyMoltbookIdentity e remote r of
           Returns st \<Rightarrow> Returns (st\<lparr>req := (req st)\<lparr>headers := (k, v) # headers r\<rparr>\<rparr>)
         | Throws x \<Rightarrow> Throws x))
   \<and> (k \<noteq> headerName a \<longrightarrow>
      ts_verify a remote (r\<lparr>headers := (k, v) # headers r\<rparr>) =
        (case ts_verify a remote r of
           Returns st \<Rightarrow> Returns (st\<lparr>req := (req st)\<lparr>headers := (k, v) # headers r\<rparr>\<rparr>)
         | Throws x \<Rightarrow> Throws x))
   \<and> (s \<noteq> [] \<and> truthy (env_value (MOLTBOOK_APP_KEY e)) \<longrightarrow>
      (\<exists>st. verifyMoltbookIdentity e remote (r\<lparr>headers := (''x-moltbook-identity'', JStr s) # hs\<rparr>)
               = Returns st
          \<and> fetched st = [verify_call e (JStr s)]
          \<and> map_of (out_body (verify_call e (JStr s))) ''token'' = Some (JStr s)))
   \<and> (s \<noteq> [] \<and> truthy (env_value (apiKey a)) \<longrightarrow>
      (\<exists>st. ts_verify a remote (r\<lparr>headers := (headerName a, JStr s) # hs\<rparr>) = Returns st
          \<and> fetched st = [ts_verify_call a (JStr s)]
          \<and> map_of (out_body (ts_verify_call a (JStr s))) ''token'' = Some (JStr s)))"
proof (intro conjI impI)
  assume "k \<noteq> ''x-moltbook-identity''"
  then show "verifyMoltbookIdentity e remote (r\<lparr>headers := (k, v) # headers r\<rparr>) =
        (case verifyMoltbookIdentity e remote r of
           Returns st \<Rightarrow> Returns (st\<lparr>req := (req st)\<lparr>headers := (k, v) # headers r\<rparr>\<rparr>)
         | Throws x \<Rightarrow> Throws x)"
    by (intro js_other_headers) (simp add: js_lookup_other_name)
next
  assume "k \<noteq> headerName a"
  then show "ts_verify a remote (r\<lparr>headers := (k, v) # headers r\<rparr>) =
        (case ts_verify a remote r of
           Returns st \<Rightarrow> Returns (st\<lparr>req := (req st)\<lparr>headers := (k, v) # headers r\<rparr>\<rparr>)
         | Throws x \<Rightarrow> Throws x)"
    by (intro ts_other_headers) (simp add: js_lookup_other_name)
next
  assume "s \<noteq> [] \<and> truthy (env_value (MOLTBOOK_APP_KEY e))"
  with js_reaches_call [of "r\<lparr>headers := (''x-moltbook-identity'', JStr s) # hs\<rparr>" e remote]
  show "\<exists>st. verifyMoltbookIdentity e remote (r\<lparr>headers := (''x-moltbook-identity'', JStr s) # hs\<rparr>)
               = Returns st
          \<and> fetched st = [verify_call e (JStr s)]
          \<and> map_of (out_body (verify_call e (JStr s))) ''token'' = Some (JStr s)"
    by (simp add: js_lookup_exact_name token_of_call)
next
  assume "s \<noteq> [] \<and> truthy (env_value (apiKey a))"
  with ts_reaches_call [of "r\<lparr>headers := (headerName a, JStr s) # hs\<rparr>" a s remote]
  show "\<exists>st. ts_verify a remote (r\<lparr>headers := (headerName a, JStr s) # hs\<rparr>) = Returns st
          \<and> fetched st = [ts_verify_call a (JStr s)]
          \<and> map_of (out_body (ts_verify_call a (JStr s))) ''token'' = Some (JStr s)"
    by (simp add: js_lookup_exact_name ts_token_of_call)
qed

text \<open>The theorem at a header sent as \<open>X-Moltbook-Identity\<close> and at one stored as
  \<open>x-moltbook-identity\<close>.\<close>

theorem header_read_is_exact_match_witness:
  "verifyMoltbookIdentity \<lparr>MOLTBOOK_APP_KEY = Some ''moltdev_k'', MOLTBOOK_AUDIENCE = None\<rparr>
      (answers bot_body)
      (\<lparr>headers = [], moltbookAgent = JUndefined\<rparr>
         \<lparr>headers := (''X-Moltbook-Identity'', JStr ''tok123'')
                       # headers \<lparr>headers = [], moltbookAgent = JUndefined\<rparr>\<rparr>)
     = (case verifyMoltbookIdentity
               \<lparr>MOLTBOOK_APP_KEY = Some ''moltdev_k'', MOLTBOOK_AUDIENCE = None\<rparr>
               (answers bot_body) \<lparr>headers = [], moltbookAgent = JUndefined\<rparr> of
          Returns st \<Rightarrow>
            Returns (st\<lparr>req := (req st)\<lparr>headers := (''X-Moltbook-Identity'', JStr ''tok123'')
                       # headers \<lparr>headers = [], moltbookAgent = JUndefined\<rparr>\<rparr>\<rparr>)
        | Throws x \<Rightarrow> Throws x)
   \<and> (\<exists>st. verifyMoltbookIdentity
               \<lparr>MOLTBOOK_APP_KEY = Some ''moltdev_k'', MOLTBOOK_AUDIENCE = None\<rparr>
               (answers bot_body)
               (\<lparr>headers = [], moltbookAgent = JUndefined\<rparr>
                  \<lparr>headers := [(''x-moltbook-identity'', JStr ''tok123'')]\<rparr>)
             = Returns st
          \<and> fetched st = [verify_call \<lparr>MOLTBOOK_APP_KEY = Some ''moltdev_k'',
                                          MOLTBOOK_AUDIENCE = None\<rparr> (JStr ''tok123'')]
          \<and> map_of (out_body (verify_call \<lparr>MOLTBOOK_APP_KEY = Some ''moltdev_k'',
                                          MOLTBOOK_AUDIENCE = None\<rparr> (JStr ''tok123'')))
               ''token'' = Some (JStr ''tok123''))"
  using header_read_is_exact_match
    [where k = "''X-Moltbook-Identity''" and v = "JStr ''tok123''"
       and e = "\<lparr>MOLTBOOK_APP_KEY = Some ''moltdev_k'', MOLTBOOK_AUDIENCE = None\<rparr>"
       and remote = "answers bot_body"
       and r = "\<lparr>headers = [], moltbookAgent = JUndefined\<rparr>"
       and s = "''tok123''" and hs = "[]"]
  by (simp add: env_value_def)

section \<open>Failure response and continue signal\<close>

text \<open>
  C10. As stated the claim fails where the remote reports the token valid and the log
  line of the success path cannot be built: \<open>verifyMoltbookIdentity\<close> has stored the
  reported agent in \<open>req.moltbookAgent\<close> by then, and ends in the 500 response. With
  \<open>agent: null\<close> the request carries \<open>null\<close> afterwards; with an agent whose \<open>name\<close>
  is an object that cannot be converted to a string it carries that agent object.
\<close>

theorem agent_stored_before_failure:
  "verifyMoltbookIdentity \<lparr>MOLTBOOK_APP_KEY = Some ''moltdev_k'', MOLTBOOK_AUDIENCE = None\<rparr>
      (answers (JObj [(''valid'', JBool True), (''agent'', JNull)]))
      \<lparr>headers = [(''x-moltbook-identity'', JStr ''tok123'')], moltbookAgent = JUndefined\<rparr>
     = Returns \<lparr>req = \<lparr>headers = [(''x-moltbook-identity'', JStr ''tok123'')],
                       moltbookAgent = JNull\<rparr>,
                sent = [verification_failure_response], next_calls = 0,
                fetched = [verify_call \<lparr>MOLTBOOK_APP_KEY = Some ''moltdev_k'',
                                         MOLTBOOK_AUDIENCE = None\<rparr> (JStr ''tok123'')]\<rparr>
   \<and> verifyMoltbookIdentity \<lparr>MOLTBOOK_APP_KEY = Some ''moltdev_k'', MOLTBOOK_AUDIENCE = None\<rparr>
      (answers (JObj [(''valid'', JBool True),
                      (''agent'', JObj [(''id'', JStr ''u1''),
                                        (''name'', JObj [(''toString'', JNum 1)]),
                                        (''karma'', JNum 420)])]))
      \<lparr>headers = [(''x-moltbook-identity'', JStr ''tok123'')], moltbookAgent = JUndefined\<rparr>
     = Returns \<lparr>req = \<lparr>headers = [(''x-moltbook-identity'', JStr ''tok123'')],
                       moltbookAgent = JObj [(''id'', JStr ''u1''),
                                             (''name'', JObj [(''toString'', JNum 1)]),
                                             (''karma'', JNum 420)]\<rparr>,
                sent = [verification_failure_response], next_calls = 0,
                fetched = [verify_call \<lparr>MOLTBOOK_APP_KEY = Some ''moltdev_k'',
                                         MOLTBOOK_AUDIENCE = None\<rparr> (JStr ''tok123'')]\<rparr>"
  by (simp add: verifyMoltbookIdentity_def verify_try_def verified_log_line_def answers_def
      env_value_def js_lookup_def effect_defs verification_failure_response_def Let_def)

text \<open>
  C10, amended. A run that sends a response sends exactly one and does not call
  \<open>next\<close>, and a run that calls \<open>next\<close> calls it once and sends no response. A
  failure response leaves the request untouched, except for the 500 response sent after
  the remote reported the token valid and the log line could not be built, where the
  reported agent value has been stored.
\<close>

theorem failure_response_excludes_continue:
  "(verifyMoltbookIdentity e remote r = Returns st \<and> sent st \<noteq> []
      \<longrightarrow> next_calls st = 0 \<and> length (sent st) = 1 \<and> headers (req st) = headers r
          \<and> (req st = r
               \<or> sent st = [verification_failure_response]
                 \<and> (\<exists>data v A y.
                       remote (verify_call e (js_lookup (headers r) ''x-moltbook-identity''))
                         = Resolves (Json data)
                       \<and> get_prop data ''valid'' = Inr v \<and> truthy v
                       \<and> get_prop data ''agent'' = Inr A \<and> verified_log_line A = Inl y
                       \<and> req st = r\<lparr>moltbookAgent := A\<rparr>)))
   \<and> (verifyMoltbookIdentity e remote r = Returns st \<and> next_calls st \<noteq> 0
      \<longrightarrow> sent st = [] \<and> next_calls st = 1)
   \<and> (ts_verify a remote r = Returns st' \<and> sent st' \<noteq> []
      \<longrightarrow> next_calls st' = 0 \<and> length (sent st') = 1 \<and> headers (req st') = headers r
          \<and> (req st' = r
               \<or> sent st' = [verification_failure_response]
                 \<and> (\<exists>A y. ts_verified_log_line A = Inl y \<and> req st' = r\<lparr>moltbookAgent := A\<rparr>)))
   \<and> (ts_verify a remote r = Returns st' \<and> next_calls st' \<noteq> 0
      \<longrightarrow> sent st' = [] \<and> next_calls st' = 1)"
proof -
  from js_run [of e remote r] obtain s where
    s: "verifyMoltbookIdentity e remote r = Returns s"
       "length (sent s) + next_calls s = 1" "headers (req s) = headers r"
       "sent s \<noteq> [] \<longrightarrow> next_calls s = 0
            \<and> (req s = r
                \<or> sent s = [verification_failure_response]
                  \<and> (\<exists>data v A y.
                        remote (verify_call e (js_lookup (headers r) ''x-moltbook-identity''))
                          = Resolves (Json data)
                        \<and> get_prop data ''valid'' = Inr v \<and> truthy v
                        \<and> get_prop data ''agent'' = Inr A \<and> verified_log_line A = Inl y
                        \<and> req s = r\<lparr>moltbookAgent := A\<rparr>))"
    by blast
  from ts_run [of a remote r] obtain s' where
    s': "ts_verify a remote r = Returns s'"
       "length (sent s') + next_calls s' = 1" "headers (req s') = headers r"
       "sent s' \<noteq> [] \<longrightarrow> next_calls s' = 0
            \<and> (req s' = r
                \<or> sent s' = [verification_failure_response]
                  \<and> (\<exists>A y. ts_verified_log_line A = Inl y \<and> req s' = r\<lparr>moltbookAgent := A\<rparr>))"
    by blast
  have one: "length xs = 1" if "xs \<noteq> []" "length xs + n = 1" for xs :: "response list" and n :: nat
    using that by (cases xs) simp_all
  have none: "xs = [] \<and> n = 1" if "n \<noteq> 0" "length xs + n = 1" for xs :: "response list" and n :: nat
    using that by (cases xs) simp_all
  have c1: "next_calls st = 0 \<and> length (sent st) = 1 \<and> headers (req st) = headers r
          \<and> (req st = r
               \<or> sent st = [verification_failure_response]
                 \<and> (\<exists>data v A y.
                       remote (verify_call e (js_lookup (headers r) ''x-moltbook-identity''))
                         = Resolves (Json data)
                       \<and> get_prop data ''valid'' = Inr v \<and> truthy v
                       \<and> get_prop data ''agent'' = Inr A \<and> verified_log_line A = Inl y
                       \<and> req st = r\<lparr>moltbookAgent := A\<rparr>))"
    if "verifyMoltbookIdentity e remote r = Returns st \<and> sent st \<noteq> []"
  proof -
    from that s(1) have eq: "st = s" and ne: "sent s \<noteq> []" by simp_all
    from ne s(2) have "length (sent s) = 1" by (rule one)
    with ne s(3,4) eq show ?thesis by blast
  qed
  have c2: "sent st = [] \<and> next_calls st = 1"
    if "verifyMoltbookIdentity e remote r = Returns st \<and> next_calls st \<noteq> 0"
  proof -
    from that s(1) have eq: "st = s" and ne: "next_calls s \<noteq> 0" by simp_all
    from none [OF ne s(2)] eq show ?thesis by simp
  qed
  have c3: "next_calls st' = 0 \<and> length (sent st') = 1 \<and> headers (req st') = headers r
          \<and> (req st' = r
               \<or> sent st' = [verification_failure_response]
                 \<and> (\<exists>A y. ts_verified_log_line A = Inl y \<and> req st' = r\<lparr>moltbookAgent := A\<rparr>))"
    if "ts_verify a remote r = Returns st' \<and> sent st' \<noteq> []"
  proof -
    from that s'(1) have eq: "st' = s'" and ne: "sent s' \<noteq> []" by simp_all
    from ne s'(2) have "length (sent s') = 1" by (rule one)
    with ne s'(3,4) eq show ?thesis by blast
  qed
  have c4: "sent st' = [] \<and> next_calls st' = 1"
    if "ts_verify a remote r = Returns st' \<and> next_calls st' \<noteq> 0"
  proof -
    from that s'(1) have eq: "st' = s'" and ne: "next_calls s' \<noteq> 0" by simp_all
    from none [OF ne s'(2)] eq show ?thesis by simp
  qed
  from c1 c2 c3 c4 show ?thesis by blast
qed

text \<open>The theorem at a remote that cannot be reached.\<close>

theorem failure_response_excludes_continue_witness:
  "verifyMoltbookIdentity \<lparr>MOLTBOOK_APP_KEY = Some ''moltdev_k'', MOLTBOOK_AUDIENCE = None\<rparr>
      unreachable
      \<lparr>headers = [(''x-moltbook-identity'', JStr ''tok123'')], moltbookAgent = JUndefined\<rparr>
     = Returns \<lparr>req = \<lparr>headers = [(''x-moltbook-identity'', JStr ''tok123'')],
                       moltbookAgent = JUndefined\<rparr>,
                sent = [verification_failure_response], next_calls = 0,
                fetched = [verify_call \<lparr>MOLTBOOK_APP_KEY = Some ''moltdev_k'',
                                         MOLTBOOK_AUDIENCE = None\<rparr> (JStr ''tok123'')]\<rparr>
   \<and> next_calls
        \<lparr>req = \<lparr>headers = [(''x-moltbook-identity'', JStr ''tok123'')],
                       moltbookAgent = JUndefined\<rparr>,
                sent = [verification_failure_response], next_calls = 0,
                fetched = [verify_call \<lparr>MOLTBOOK_APP_KEY = Some ''moltdev_k'',
                                         MOLTBOOK_AUDIENCE = None\<rparr> (JStr ''tok123'')]\<rparr> = 0"
proof -
  let ?e = "\<lparr>MOLTBOOK_APP_KEY = Some ''moltdev_k'', MOLTBOOK_AUDIENCE = None\<rparr>"
  let ?r = "\<lparr>headers = [(''x-moltbook-identity'', JStr ''tok123'')], moltbookAgent = JUndefined\<rparr>"
  let ?st = "\<lparr>req = ?r, sent = [verification_failure_response], next_calls = 0,
              fetched = [verify_call ?e (JStr ''tok123'')]\<rparr>"
  have run: "verifyMoltbookIdentity ?e unreachable ?r = Returns ?st"
    using js_transport_failure [of ?r ?e unreachable NetworkError]
    by (simp add: js_lookup_def env_value_def unreachable_def)
  have "sent ?st \<noteq> []" by simp
  with run failure_response_excludes_continue [of ?e unreachable ?r ?st]
  have "next_calls ?st = 0" by blast
  with run show ?thesis by blast
qed

end
